theory Spec2Isabelle
  imports Main "HOL-Library.Word"
begin

section \<open>Values seen by the C functions\<close>

text \<open>
  Addresses returned by \<^verbatim>\<open>malloc\<close> are natural numbers; \<open>0\<close> is \<^verbatim>\<open>NULL\<close>.
  A C \<^verbatim>\<open>int\<close> is a 32-bit word, read as two's complement with \<open>sint\<close>.
\<close>

type_synonym addr = nat
type_synonym cint = "32 word"

text \<open>
  Lua values as the binding code meets them on the stack. Numbers are the integer-valued
  ones; strings are not part of the argument model. A function is a user function (named
  by a number), the identity function that the instance chunk writes out, or the wrapped
  driver coroutine that the chunk returns (with its two upvalues \<^verbatim>\<open>h\<close> and \<^verbatim>\<open>s\<close>).
\<close>

datatype lua_fn = UserFn nat | IdentityFn | DriverCo lua_value lua_value
and lua_value =
    LNil
  | LBoolean bool
  | LNumber int
  | LFunction lua_fn
  | LLightUserdata addr
  | LUserdata nat
  | LTable nat

text \<open>What a C function leaves for Lua: a value, or a string literal it pushed itself.\<close>

datatype lua_ret = Val lua_value | Lit string

datatype lua_type = LUA_TNONE | LUA_TNIL | LUA_TBOOLEAN | LUA_TNUMBER | LUA_TFUNCTION
  | LUA_TLIGHTUSERDATA | LUA_TUSERDATA | LUA_TTABLE

text \<open>
  \<open>LuaError\<close> is \<^verbatim>\<open>luaL_error\<close> (a long jump out of the C function), \<open>MemFault\<close> a
  dereference of an address that holds no object, \<open>Blocked\<close> a lock that is already held.
\<close>

datatype error = LuaError string | MemFault | Blocked

datatype metatable = CLP_TASK_METATABLE | CLP_POOL_METATABLE

record udata =
  ud_ptr :: addr
  ud_mt :: "metatable option"

text \<open>The table \<^verbatim>\<open>{f = ..., e = ...}\<close> that is marshalled as a process environment.\<close>

datatype env_tab = EnvTab (tab_f: lua_value) (tab_e: lua_value)

section \<open>The structs\<close>

text \<open>
  Modelled from the spec: the structs are declared in headers that are not among the two
  source files. Their fields are the ones the code reads and writes; the counters
  (\<^verbatim>\<open>instances\<close> of a task, \<^verbatim>\<open>size\<close> and \<^verbatim>\<open>lock\<close> of a pool) are taken to be C
  \<^verbatim>\<open>int\<close>s, as the \<^verbatim>\<open>int\<close> operands they are combined with. In the model the mutex of a task is
  the flag that tells whether it is held, the environment is the address of its buffer,
  and the ready queue of a pool is kept in the pool.
\<close>

record clp_Task =
  intances_mutex :: bool
  instances :: cint
  env :: addr
  env_len :: nat
  input :: addr
  pool :: addr
  parent :: addr

text \<open>
  Modelled from the spec: the instance states. The enum is declared in a header that is
  not part of the two source files; they use \<^verbatim>\<open>I_CREATED\<close> and \<^verbatim>\<open>I_READY\<close>.
\<close>

datatype istate = I_CREATED | I_READY | I_RUNNING | I_BLOCKED | I_DEAD

record instance_s =
  inst_L :: nat
  inst_task :: addr
  inst_state :: istate
  inst_chan :: addr
  inst_ev :: addr

record lfqueue =
  items :: "addr list"
  capacity :: int

record pool_s =
  size_pool :: cint
  lock_pool :: cint
  ready :: lfqueue

text \<open>
  One interpreter: its full userdata blocks, the registry entries the code uses
  (the weak-valued handle cache under \<^verbatim>\<open>CLP_TASK_CACHE\<close>, which is absent until first
  built, the instance key, the handler, the environment and the error function) and its
  tables of the \<open>env_tab\<close> shape.
\<close>

record lua_State =
  ud_heap :: "nat \<rightharpoonup> udata"
  next_ud :: nat
  task_cache :: "(addr \<rightharpoonup> nat) option"
  tab_heap :: "nat \<rightharpoonup> env_tab"
  next_tab :: nat
  reg_instance :: "addr option"
  reg_handler :: lua_value
  reg_env :: lua_value
  reg_errfn :: lua_value

text \<open>
  The C heap shared by all interpreters: one map per struct type, the message queue of
  every channel, the interpreters owned by instances, the worker threads started (each
  named by its pool), the allocation pointer and the global \<^verbatim>\<open>clp_defaultpool\<close>.
\<close>

record world =
  tasks :: "addr \<rightharpoonup> clp_Task"
  bufs :: "addr \<rightharpoonup> string"
  pools :: "addr \<rightharpoonup> pool_s"
  channels :: "addr \<rightharpoonup> lua_value list"
  insts :: "addr \<rightharpoonup> instance_s"
  lstates :: "nat \<rightharpoonup> lua_State"
  threads :: "addr list"
  next_addr :: addr
  clp_defaultpool :: addr

type_synonym st = "lua_State \<times> world"
type_synonym cfun_result = "st \<times> (error + lua_ret list)"

section \<open>The Lua API as the code uses it\<close>

definition arg :: "lua_value list \<Rightarrow> nat \<Rightarrow> lua_value option" where
  "arg args i = (if 0 < i \<and> i \<le> length args then Some (args ! (i - 1)) else None)"

fun type_of_value :: "lua_value \<Rightarrow> lua_type" where
  "type_of_value LNil = LUA_TNIL"
| "type_of_value (LBoolean b) = LUA_TBOOLEAN"
| "type_of_value (LNumber k) = LUA_TNUMBER"
| "type_of_value (LFunction g) = LUA_TFUNCTION"
| "type_of_value (LLightUserdata a) = LUA_TLIGHTUSERDATA"
| "type_of_value (LUserdata u) = LUA_TUSERDATA"
| "type_of_value (LTable r) = LUA_TTABLE"

definition lua_type_at :: "lua_value list \<Rightarrow> nat \<Rightarrow> lua_type" where
  "lua_type_at args i = (case arg args i of None \<Rightarrow> LUA_TNONE | Some v \<Rightarrow> type_of_value v)"

text \<open>\<^verbatim>\<open>lua_tointeger\<close>: the number cast to \<^verbatim>\<open>int\<close>, and 0 for anything that is no number.\<close>

definition lua_tointeger :: "lua_value list \<Rightarrow> nat \<Rightarrow> cint" where
  "lua_tointeger args i = (case arg args i of Some (LNumber k) \<Rightarrow> word_of_int k | _ \<Rightarrow> 0)"

text \<open>\<^verbatim>\<open>luaL_optint\<close>: the default for none or nil, an argument error for a non-number.\<close>

definition luaL_optint :: "lua_value list \<Rightarrow> nat \<Rightarrow> cint \<Rightarrow> error + cint" where
  "luaL_optint args i d =
     (case arg args i of
        None \<Rightarrow> Inr d
      | Some LNil \<Rightarrow> Inr d
      | Some (LNumber k) \<Rightarrow> Inr (word_of_int k)
      | Some _ \<Rightarrow> Inl (LuaError ''number expected''))"

text \<open>\<^verbatim>\<open>luaL_checkudata\<close> followed by the read of the pointer the block holds.\<close>

definition luaL_checkudata :: "lua_State \<Rightarrow> lua_value list \<Rightarrow> nat \<Rightarrow> metatable \<Rightarrow> error + nat" where
  "luaL_checkudata L args i mt =
     (case arg args i of
        Some (LUserdata u) \<Rightarrow>
          (case ud_heap L u of
             None \<Rightarrow> Inl MemFault
           | Some b \<Rightarrow> if ud_mt b = Some mt then Inr u else Inl (LuaError ''bad argument''))
      | _ \<Rightarrow> Inl (LuaError ''bad argument''))"

definition clp_totask :: "lua_State \<Rightarrow> lua_value list \<Rightarrow> nat \<Rightarrow> error + addr" where
  "clp_totask L args i =
     (case luaL_checkudata L args i CLP_TASK_METATABLE of
        Inl e \<Rightarrow> Inl e
      | Inr u \<Rightarrow> (case ud_heap L u of None \<Rightarrow> Inl MemFault | Some b \<Rightarrow> Inr (ud_ptr b)))"

text \<open>\<^verbatim>\<open>lua_pushvalue (L, 1); return 1\<close>.\<close>

definition return_self :: "lua_value list \<Rightarrow> error + lua_ret list" where
  "return_self args = (case arg args 1 of None \<Rightarrow> Inr [Val LNil] | Some v \<Rightarrow> Inr [Val v])"

section \<open>Queues, the scheduler's entry points and allocation\<close>

definition malloc :: "world \<Rightarrow> addr \<times> world" where
  "malloc w = (next_addr w, w\<lparr>next_addr := Suc (next_addr w)\<rparr>)"

text \<open>
  Modelled from the spec: the lock-free queue (its source is not among the two files).
  A negative capacity means unbounded; a push onto a bounded queue that has reached its
  capacity fails and leaves the queue as it was; otherwise the item goes to the back.
\<close>

definition clp_lfqueue_new :: lfqueue where
  "clp_lfqueue_new = \<lparr>items = [], capacity = -1\<rparr>"

definition clp_lfqueue_setcapacity :: "lfqueue \<Rightarrow> int \<Rightarrow> lfqueue" where
  "clp_lfqueue_setcapacity q c = q\<lparr>capacity := c\<rparr>"

definition clp_lfqueue_push :: "lfqueue \<Rightarrow> addr \<Rightarrow> bool \<times> lfqueue" where
  "clp_lfqueue_push q x =
     (if 0 \<le> capacity q \<and> capacity q \<le> int (length (items q)) then (False, q)
      else (True, q\<lparr>items := items q @ [x]\<rparr>))"

text \<open>
  Modelled from the spec: \<^verbatim>\<open>clp_pushinstance\<close> (scheduler) hands the instance to the pool
  of its task through that pool's ready queue.
\<close>

definition clp_pushinstance :: "addr \<Rightarrow> world \<Rightarrow> error + world" where
  "clp_pushinstance i w =
     (case insts w i of
        None \<Rightarrow> Inl MemFault
      | Some ii \<Rightarrow>
          (case tasks w (inst_task ii) of
             None \<Rightarrow> Inl MemFault
           | Some t \<Rightarrow>
               (case pools w (pool t) of
                  None \<Rightarrow> Inl MemFault
                | Some pl \<Rightarrow>
                    Inr (w\<lparr>pools := (pools w)(pool t \<mapsto>
                           pl\<lparr>ready := snd (clp_lfqueue_push (ready pl) i)\<rparr>)\<rparr>))))"

text \<open>\<^verbatim>\<open>luaL_newstate\<close>: a fresh interpreter with nothing in its registry.\<close>

definition luaL_newstate :: lua_State where
  "luaL_newstate = \<lparr>ud_heap = Map.empty, next_ud = 0, task_cache = None,
     tab_heap = Map.empty, next_tab = 0, reg_instance = None,
     reg_handler = LNil, reg_env = LNil, reg_errfn = LNil\<rparr>"

section \<open>Instances of a task\<close>

definition clp_newinstance :: "addr \<Rightarrow> world \<Rightarrow> error + (addr \<times> world)" where
  "clp_newinstance s w =
     (let (l, w1) = malloc w;
          w2 = w1\<lparr>lstates := (lstates w1)(l \<mapsto> luaL_newstate)\<rparr>;
          (i, w3) = malloc w2;
          w4 = w3\<lparr>insts := (insts w3)(i \<mapsto>
                 \<lparr>inst_L = l, inst_task = s, inst_state = I_CREATED,
                  inst_chan = 0, inst_ev = 0\<rparr>)\<rparr>
      in case clp_pushinstance i w4 of Inl e \<Rightarrow> Inl e | Inr w5 \<Rightarrow> Inr (i, w5))"

text \<open>The loop \<^verbatim>\<open>for (i = 0; i < n; i++) (void) clp_newinstance (s);\<close> with \<open>k\<close> rounds left.\<close>

fun new_instances :: "nat \<Rightarrow> addr \<Rightarrow> world \<Rightarrow> error + world" where
  "new_instances 0 s w = Inr w"
| "new_instances (Suc k) s w =
     (case clp_newinstance s w of Inl e \<Rightarrow> Inl e | Inr (i, w') \<Rightarrow> new_instances k s w')"

definition MUTEX_LOCK :: "addr \<Rightarrow> world \<Rightarrow> error + world" where
  "MUTEX_LOCK p w =
     (case tasks w p of
        None \<Rightarrow> Inl MemFault
      | Some t \<Rightarrow> if intances_mutex t then Inl Blocked
                  else Inr (w\<lparr>tasks := (tasks w)(p \<mapsto> t\<lparr>intances_mutex := True\<rparr>)\<rparr>))"

definition MUTEX_UNLOCK :: "addr \<Rightarrow> world \<Rightarrow> error + world" where
  "MUTEX_UNLOCK p w =
     (case tasks w p of
        None \<Rightarrow> Inl MemFault
      | Some t \<Rightarrow> Inr (w\<lparr>tasks := (tasks w)(p \<mapsto> t\<lparr>intances_mutex := False\<rparr>)\<rparr>))"

text \<open>\<^verbatim>\<open>s->instances += n\<close> (and \<^verbatim>\<open>-= n\<close> with the negated word).\<close>

definition add_instances :: "addr \<Rightarrow> cint \<Rightarrow> world \<Rightarrow> error + world" where
  "add_instances p n w =
     (case tasks w p of
        None \<Rightarrow> Inl MemFault
      | Some t \<Rightarrow> Inr (w\<lparr>tasks := (tasks w)(p \<mapsto> t\<lparr>instances := instances t + n\<rparr>)\<rparr>))"

text \<open>The part of \<^verbatim>\<open>task_instantiate\<close> between \<^verbatim>\<open>MUTEX_LOCK\<close> and \<^verbatim>\<open>MUTEX_UNLOCK\<close>.\<close>

definition instantiate_locked :: "addr \<Rightarrow> cint \<Rightarrow> world \<Rightarrow> error + world" where
  "instantiate_locked p n w =
     (case add_instances p n w of
        Inl e \<Rightarrow> Inl e
      | Inr w1 \<Rightarrow> new_instances (nat (sint n)) p w1)"

definition task_instantiate :: "st \<Rightarrow> lua_value list \<Rightarrow> cfun_result" where
  "task_instantiate s args =
     (case clp_totask (fst s) args 1 of
        Inl e \<Rightarrow> (s, Inl e)
      | Inr p \<Rightarrow>
          (case tasks (snd s) p of
             None \<Rightarrow> (s, Inl MemFault)
           | Some t \<Rightarrow>
               if pool t = 0 then (s, Inl (LuaError ''Process must be associated to a pool''))
               else if env t = 0 then (s, Inl (LuaError ''Process must have an environment''))
               else let n = lua_tointeger args 2 in
                 if sint n < 0 then (s, Inl (LuaError ''Argument must be positive''))
                 else if n = 0 then (s, return_self args)
                 else
                   (case MUTEX_LOCK p (snd s) of
                      Inl e \<Rightarrow> (s, Inl e)
                    | Inr w1 \<Rightarrow>
                        (case instantiate_locked p n w1 of
                           Inl e \<Rightarrow> ((fst s, w1), Inl e)
                         | Inr w2 \<Rightarrow>
                             (case MUTEX_UNLOCK p w2 of
                                Inl e \<Rightarrow> ((fst s, w2), Inl e)
                              | Inr w3 \<Rightarrow> ((fst s, w3), return_self args))))))"

definition task_destroyinstances :: "st \<Rightarrow> lua_value list \<Rightarrow> cfun_result" where
  "task_destroyinstances s args =
     (case clp_totask (fst s) args 1 of
        Inl e \<Rightarrow> (s, Inl e)
      | Inr p \<Rightarrow>
          (case luaL_optint args 2 0 of
             Inl e \<Rightarrow> (s, Inl e)
           | Inr n \<Rightarrow>
               if sint n < 0 then (s, Inl (LuaError ''Argument must be positive''))
               else if n = 0 then (s, return_self args)
               else
                 (case MUTEX_LOCK p (snd s) of
                    Inl e \<Rightarrow> (s, Inl e)
                  | Inr w1 \<Rightarrow>
                      (case add_instances p (- n) w1 of
                         Inl e \<Rightarrow> ((fst s, w1), Inl e)
                       | Inr w2 \<Rightarrow>
                           (case MUTEX_UNLOCK p w2 of
                              Inl e \<Rightarrow> ((fst s, w2), Inl e)
                            | Inr w3 \<Rightarrow> ((fst s, w3), return_self args))))))"

section \<open>The marshalled environment\<close>

text \<open>
  The marshaller (\<^verbatim>\<open>mar_encode\<close>, \<^verbatim>\<open>mar_decode\<close>) is a collaborator outside the two
  files. The functions that call it take it as a parameter: \<open>enc\<close> turns the environment
  table into bytes or raises, \<open>dec\<close> turns bytes back into a table or raises.
\<close>

type_synonym encoder = "env_tab \<Rightarrow> error + string"

definition arg_or_nil :: "lua_value list \<Rightarrow> nat \<Rightarrow> lua_value" where
  "arg_or_nil args i = (case arg args i of None \<Rightarrow> LNil | Some v \<Rightarrow> v)"

definition set_env :: "addr \<Rightarrow> addr \<Rightarrow> nat \<Rightarrow> world \<Rightarrow> error + world" where
  "set_env p a len w =
     (case tasks w p of
        None \<Rightarrow> Inl MemFault
      | Some t \<Rightarrow> Inr (w\<lparr>tasks := (tasks w)(p \<mapsto> t\<lparr>env := a, env_len := len\<rparr>)\<rparr>))"

definition task_wrap :: "encoder \<Rightarrow> st \<Rightarrow> lua_value list \<Rightarrow> cfun_result" where
  "task_wrap enc s args =
     (let top = length args in
      case clp_totask (fst s) args 1 of
        Inl e \<Rightarrow> (s, Inl e)
      | Inr p \<Rightarrow>
          (case tasks (snd s) p of
             None \<Rightarrow> (s, Inl MemFault)
           | Some t \<Rightarrow>
               if env t \<noteq> 0 then (s, Inl (LuaError ''Process already have a environment''))
               else if lua_type_at args 2 \<noteq> LUA_TFUNCTION then (s, Inl (LuaError ''bad argument''))
               else
                 (case enc (EnvTab (arg_or_nil args 2)
                        (if lua_type_at args 3 = LUA_TFUNCTION \<and> 3 \<le> top
                         then arg_or_nil args 3 else LNil)) of
                    Inl e \<Rightarrow> (s, Inl e)
                  | Inr bytes \<Rightarrow>
                      (let len = length bytes;
                           (envcp, w1) = malloc (snd s);
                           w2 = w1\<lparr>bufs := (bufs w1)(envcp \<mapsto> bytes @ [CHR 0x00])\<rparr>
                       in case set_env p envcp len w2 of
                            Inl e \<Rightarrow> ((fst s, w2), Inl e)
                          | Inr w3 \<Rightarrow>
                              (case task_instantiate (fst s, w3) [arg_or_nil args 1, LNumber 1] of
                                 (s', Inl e) \<Rightarrow> (s', Inl e)
                               | (s', Inr r) \<Rightarrow> (s', return_self args))))))"

section \<open>Handles and the handle cache\<close>

text \<open>
  \<^verbatim>\<open>task_getcached\<close>: the registry entry is made (an empty weak-valued table) when it is
  no table yet; the result is the cached userdata or nil.
\<close>

definition task_getcached :: "lua_State \<Rightarrow> addr \<Rightarrow> lua_State \<times> lua_value" where
  "task_getcached L t =
     (case task_cache L of
        None \<Rightarrow> (L\<lparr>task_cache := Some Map.empty\<rparr>, LNil)
      | Some c \<Rightarrow> (L, case c t of None \<Rightarrow> LNil | Some u \<Rightarrow> LUserdata u))"

text \<open>
  \<^verbatim>\<open>task_putcache\<close> tests the registry entry with \<^verbatim>\<open>lua_isuserdata\<close>. The entry is nil or
  a table, never a userdata, so the test for "not a userdata" holds on every call and a
  new table replaces the entry before the handle is stored.
\<close>

definition cache_isuserdata :: "(addr \<rightharpoonup> nat) option \<Rightarrow> bool" where
  "cache_isuserdata r = False"

definition task_putcache :: "lua_State \<Rightarrow> addr \<Rightarrow> nat \<Rightarrow> lua_State" where
  "task_putcache L t u =
     (let c = (if \<not> cache_isuserdata (task_cache L) then Map.empty
               else (case task_cache L of None \<Rightarrow> Map.empty | Some c' \<Rightarrow> c'))
      in L\<lparr>task_cache := Some (c(t \<mapsto> u))\<rparr>)"

definition lua_newuserdata :: "lua_State \<Rightarrow> addr \<Rightarrow> nat \<times> lua_State" where
  "lua_newuserdata L a =
     (next_ud L, L\<lparr>ud_heap := (ud_heap L)(next_ud L \<mapsto> \<lparr>ud_ptr = a, ud_mt = None\<rparr>),
                   next_ud := Suc (next_ud L)\<rparr>)"

definition lua_setmetatable :: "lua_State \<Rightarrow> nat \<Rightarrow> metatable \<Rightarrow> lua_State" where
  "lua_setmetatable L u mt =
     (case ud_heap L u of
        None \<Rightarrow> L
      | Some b \<Rightarrow> L\<lparr>ud_heap := (ud_heap L)(u \<mapsto> b\<lparr>ud_mt := Some mt\<rparr>)\<rparr>)"

definition clp_buildtask :: "lua_State \<Rightarrow> addr \<Rightarrow> lua_State \<times> lua_value" where
  "clp_buildtask L t =
     (let (L1, v) = task_getcached L t in
      if type_of_value v = LUA_TUSERDATA then (L1, v)
      else let (u, L2) = lua_newuserdata L1 t;
               L3 = lua_setmetatable L2 u CLP_TASK_METATABLE
           in (task_putcache L3 t u, LUserdata u))"

text \<open>
  \<^verbatim>\<open>lua_touserdata\<close>: the address a light userdata holds, the address of the block of a
  full userdata, and \<^verbatim>\<open>NULL\<close> for every other value. Where the interpreter puts the
  block of the userdata \<open>u\<close> is its allocator's choice, given by \<open>blk u\<close>.
\<close>

definition lua_touserdata :: "(nat \<Rightarrow> addr) \<Rightarrow> lua_value list \<Rightarrow> nat \<Rightarrow> addr" where
  "lua_touserdata blk args i =
     (case arg args i of
        Some (LLightUserdata a) \<Rightarrow> a
      | Some (LUserdata u) \<Rightarrow> blk u
      | _ \<Rightarrow> 0)"

definition clp_gettask :: "(nat \<Rightarrow> addr) \<Rightarrow> st \<Rightarrow> lua_value list \<Rightarrow> cfun_result" where
  "clp_gettask blk s args =
     (let a = lua_touserdata blk args 1 in
      if a \<noteq> 0 then (let (L', v) = clp_buildtask (fst s) a in ((L', snd s), Inr [Val v]))
      else (s, Inr [Val LNil, Lit ''Process not found'']))"

definition task_ptr :: "st \<Rightarrow> lua_value list \<Rightarrow> cfun_result" where
  "task_ptr s args =
     (case clp_totask (fst s) args 1 of
        Inl e \<Rightarrow> (s, Inl e)
      | Inr p \<Rightarrow> (s, Inr [Val (LLightUserdata p)]))"

definition task_eq :: "st \<Rightarrow> lua_value list \<Rightarrow> cfun_result" where
  "task_eq s args =
     (case clp_totask (fst s) args 1 of
        Inl e \<Rightarrow> (s, Inl e)
      | Inr s1 \<Rightarrow>
          (case clp_totask (fst s) args 2 of
             Inl e \<Rightarrow> (s, Inl e)
           | Inr s2 \<Rightarrow> (s, Inr [Val (LBoolean (s1 = s2))])))"

text \<open>
  Lua's \<^verbatim>\<open>==\<close> on two values: raw equality, and for two distinct userdata that carry the
  task metatable the result of its \<^verbatim>\<open>__eq\<close>, which is \<^verbatim>\<open>task_eq\<close>.
\<close>

definition lua_equal :: "st \<Rightarrow> lua_value \<Rightarrow> lua_value \<Rightarrow> bool" where
  "lua_equal s v1 v2 =
     (if v1 = v2 then True
      else case (v1, v2) of
        (LUserdata a, LUserdata b) \<Rightarrow>
          (case (ud_heap (fst s) a, ud_heap (fst s) b) of
             (Some x, Some y) \<Rightarrow>
               ud_mt x = Some CLP_TASK_METATABLE \<and> ud_mt y = Some CLP_TASK_METATABLE \<and>
               snd (task_eq s [v1, v2]) = Inr [Val (LBoolean True)]
           | _ \<Rightarrow> False)
      | _ \<Rightarrow> False)"

section \<open>Creating and destroying a task\<close>

text \<open>
  Modelled from the spec: \<^verbatim>\<open>clp_channelnew\<close> (the channel module is not among the two
  files) allocates a channel with an empty message queue; its \<^verbatim>\<open>__id\<close> is its address.
\<close>

definition clp_channelnew :: "world \<Rightarrow> addr \<times> world" where
  "clp_channelnew w =
     (let (c, w1) = malloc w in (c, w1\<lparr>channels := (channels w1)(c \<mapsto> [])\<rparr>))"

text \<open>The number of instances \<^verbatim>\<open>clp_newtask\<close> is asked for, when it has arguments.\<close>

definition newtask_idle :: "lua_value list \<Rightarrow> error + cint" where
  "newtask_idle args =
     (if lua_type_at args 2 = LUA_TNUMBER then luaL_optint args 2 1
      else if lua_type_at args 3 = LUA_TNUMBER then luaL_optint args 3 1
      else Inr 1)"

text \<open>
  The first part of \<^verbatim>\<open>clp_newtask\<close>: the userdata, the struct and its environment.
  It yields the handle, the address of the struct and \<^verbatim>\<open>idle\<close>.
\<close>

definition newtask_alloc :: "encoder \<Rightarrow> st \<Rightarrow> lua_value list \<Rightarrow> st \<times> (error + nat \<times> addr \<times> cint)" where
  "newtask_alloc enc s args =
     (let top = length args;
          blank = \<lparr>intances_mutex = False, instances = 0, env = 0, env_len = 0,
                   input = 0, pool = 0, parent = 0\<rparr>
      in if top = 0 then
           (let (p, w1) = malloc (snd s);
                (u, L1) = lua_newuserdata (fst s) p;
                w2 = w1\<lparr>tasks := (tasks w1)(p \<mapsto> blank)\<rparr>
            in ((L1, w2), Inr (u, p, 0)))
         else if lua_type_at args 1 \<noteq> LUA_TFUNCTION then (s, Inl (LuaError ''bad argument''))
         else
           (case newtask_idle args of
              Inl e \<Rightarrow> (s, Inl e)
            | Inr idle \<Rightarrow>
                (case enc (EnvTab (arg_or_nil args 1)
                       (if lua_type_at args 2 = LUA_TFUNCTION \<and> 2 \<le> top
                        then arg_or_nil args 2 else LNil)) of
                   Inl e \<Rightarrow> (s, Inl e)
                 | Inr bytes \<Rightarrow>
                     (let len = length bytes;
                          (p, w1) = malloc (snd s);
                          (u, L1) = lua_newuserdata (fst s) p;
                          (envcp, w2) = malloc w1;
                          w3 = w2\<lparr>bufs := (bufs w2)(envcp \<mapsto> bytes),
                                  tasks := (tasks w2)(p \<mapsto> blank\<lparr>env := envcp, env_len := len\<rparr>)\<rparr>
                      in ((L1, w3), Inr (u, p, idle))))))"

text \<open>The assignments to \<^verbatim>\<open>instances\<close>, the mutex, \<^verbatim>\<open>input\<close> and \<^verbatim>\<open>pool\<close> that follow.\<close>

definition newtask_init :: "addr \<Rightarrow> world \<Rightarrow> error + world" where
  "newtask_init p w =
     (let (c, w1) = clp_channelnew w in
      case tasks w1 p of
        None \<Rightarrow> Inl MemFault
      | Some t \<Rightarrow>
          Inr (w1\<lparr>tasks := (tasks w1)(p \<mapsto> t\<lparr>instances := 0, intances_mutex := False,
                   input := c, pool := clp_defaultpool w1\<rparr>)\<rparr>))"

text \<open>The last part: \<^verbatim>\<open>parent\<close> from the instance the interpreter belongs to, if any.\<close>

definition newtask_parent :: "lua_State \<Rightarrow> addr \<Rightarrow> world \<Rightarrow> error + world" where
  "newtask_parent L p w =
     (case tasks w p of
        None \<Rightarrow> Inl MemFault
      | Some t \<Rightarrow>
          (case reg_instance L of
             None \<Rightarrow> Inr (w\<lparr>tasks := (tasks w)(p \<mapsto> t\<lparr>parent := 0\<rparr>)\<rparr>)
           | Some i \<Rightarrow>
               (case insts w i of
                  None \<Rightarrow> Inl MemFault
                | Some ii \<Rightarrow> Inr (w\<lparr>tasks := (tasks w)(p \<mapsto> t\<lparr>parent := inst_task ii\<rparr>)\<rparr>))))"

definition clp_newtask :: "encoder \<Rightarrow> st \<Rightarrow> lua_value list \<Rightarrow> cfun_result" where
  "clp_newtask enc s args =
     (case newtask_alloc enc s args of
        (s1, Inl e) \<Rightarrow> (s1, Inl e)
      | (s1, Inr (u, p, idle)) \<Rightarrow>
          (case newtask_init p (snd s1) of
             Inl e \<Rightarrow> (s1, Inl e)
           | Inr w2 \<Rightarrow>
               (let L2 = lua_setmetatable (fst s1) u CLP_TASK_METATABLE;
                    r = (if 0 < sint idle
                         then task_instantiate (L2, w2) [LUserdata u, LNumber (sint idle)]
                         else ((L2, w2), Inr []))
                in case r of
                     (s3, Inl e) \<Rightarrow> (s3, Inl e)
                   | (s3, Inr x) \<Rightarrow>
                       (case newtask_parent (fst s3) p (snd s3) of
                          Inl e \<Rightarrow> (s3, Inl e)
                        | Inr w4 \<Rightarrow> ((fst s3, w4), Inr [Val (LUserdata u)])))))"

text \<open>
  \<^verbatim>\<open>clp_destroytask\<close>: \<^verbatim>\<open>free (s->env)\<close> gives the buffer back and leaves the pointer in
  the struct; the struct itself stays allocated.
\<close>

definition clp_destroytask :: "st \<Rightarrow> lua_value list \<Rightarrow> cfun_result" where
  "clp_destroytask s args =
     (case luaL_checkudata (fst s) args 1 CLP_TASK_METATABLE of
        Inl e \<Rightarrow> (s, Inl e)
      | Inr u \<Rightarrow>
          (case ud_heap (fst s) u of
             None \<Rightarrow> (s, Inl MemFault)
           | Some b \<Rightarrow>
               if ud_ptr b = 0 then (s, Inr [])
               else
                 (case tasks (snd s) (ud_ptr b) of
                    None \<Rightarrow> (s, Inl MemFault)
                  | Some t \<Rightarrow>
                      if env t \<noteq> 0 \<and> bufs (snd s) (env t) = None then (s, Inl MemFault)
                      else
                        (let w = snd s;
                             w1 = (if env t \<noteq> 0 then w\<lparr>bufs := (bufs w)(env t := None)\<rparr> else w);
                             w2 = w1\<lparr>tasks := (tasks w1)(ud_ptr b \<mapsto> t\<lparr>input := 0\<rparr>)\<rparr>;
                             L1 = (fst s)\<lparr>ud_heap := (ud_heap (fst s))(u \<mapsto> b\<lparr>ud_ptr := 0\<rparr>)\<rparr>
                         in ((L1, w2), Inr [])))))"

section \<open>Initialising an instance\<close>











section \<open>Pools\<close>

definition clp_topool :: "lua_State \<Rightarrow> lua_value list \<Rightarrow> nat \<Rightarrow> error + addr" where
  "clp_topool L args i =
     (case luaL_checkudata L args i CLP_POOL_METATABLE of
        Inl e \<Rightarrow> Inl e
      | Inr u \<Rightarrow> (case ud_heap L u of None \<Rightarrow> Inl MemFault | Some b \<Rightarrow> Inr (ud_ptr b)))"

definition clp_buildpool :: "lua_State \<Rightarrow> addr \<Rightarrow> nat \<times> lua_State" where
  "clp_buildpool L t =
     (let (u, L1) = lua_newuserdata L t in (u, lua_setmetatable L1 u CLP_POOL_METATABLE))"

text \<open>
  Modelled from the spec: \<^verbatim>\<open>CHANNEL_LOCK\<close> and \<^verbatim>\<open>CHANNEL_UNLOCK\<close> (macros of a header
  that is not among the two files) take and release the pool's lock word, and
  \<^verbatim>\<open>clp_newthread\<close> (scheduler) starts one worker thread for the pool.
\<close>

definition CHANNEL_LOCK :: "addr \<Rightarrow> world \<Rightarrow> error + world" where
  "CHANNEL_LOCK p w =
     (case pools w p of
        None \<Rightarrow> Inl MemFault
      | Some pl \<Rightarrow> if lock_pool pl \<noteq> 0 then Inl Blocked
                   else Inr (w\<lparr>pools := (pools w)(p \<mapsto> pl\<lparr>lock_pool := 1\<rparr>)\<rparr>))"

definition CHANNEL_UNLOCK :: "addr \<Rightarrow> world \<Rightarrow> error + world" where
  "CHANNEL_UNLOCK p w =
     (case pools w p of
        None \<Rightarrow> Inl MemFault
      | Some pl \<Rightarrow> Inr (w\<lparr>pools := (pools w)(p \<mapsto> pl\<lparr>lock_pool := 0\<rparr>)\<rparr>))"

definition clp_newthread :: "addr \<Rightarrow> world \<Rightarrow> world" where
  "clp_newthread p w = w\<lparr>threads := threads w @ [p]\<rparr>"

text \<open>The loop \<^verbatim>\<open>for (i = 0; i < size; i++) clp_newthread (L, s);\<close> with \<open>k\<close> rounds left.\<close>

fun new_threads :: "nat \<Rightarrow> addr \<Rightarrow> world \<Rightarrow> world" where
  "new_threads 0 p w = w"
| "new_threads (Suc k) p w = new_threads k p (clp_newthread p w)"

definition add_size :: "addr \<Rightarrow> cint \<Rightarrow> world \<Rightarrow> error + world" where
  "add_size p n w =
     (case pools w p of
        None \<Rightarrow> Inl MemFault
      | Some pl \<Rightarrow> Inr (w\<lparr>pools := (pools w)(p \<mapsto> pl\<lparr>size_pool := size_pool pl + n\<rparr>)\<rparr>))"

text \<open>
  The body of \<^verbatim>\<open>pool_addthread\<close>, up to its \<^verbatim>\<open>return size\<close>: the new state and the
  number the C function returns.
\<close>

definition pool_addthread_body :: "st \<Rightarrow> lua_value list \<Rightarrow> st \<times> (error + cint)" where
  "pool_addthread_body s args =
     (case clp_topool (fst s) args 1 of
        Inl e \<Rightarrow> (s, Inl e)
      | Inr p \<Rightarrow>
          (case luaL_optint args 2 1 of
             Inl e \<Rightarrow> (s, Inl e)
           | Inr n \<Rightarrow>
               (case CHANNEL_LOCK p (snd s) of
                  Inl e \<Rightarrow> (s, Inl e)
                | Inr w1 \<Rightarrow>
                    if sint n < 0
                    then ((fst s, w1), Inl (LuaError ''argument must be positive or zero''))
                    else
                      (case add_size p n (new_threads (nat (sint n)) p w1) of
                         Inl e \<Rightarrow> ((fst s, w1), Inl e)
                       | Inr w2 \<Rightarrow>
                           (case CHANNEL_UNLOCK p w2 of
                              Inl e \<Rightarrow> ((fst s, w2), Inl e)
                            | Inr w3 \<Rightarrow> ((fst s, w3), Inr n))))))"

text \<open>
  A C function that returns \<open>n\<close> hands the top \<open>n\<close> slots of the stack to Lua.
  \<^verbatim>\<open>pool_addthread\<close> pushes nothing, so above the frame of its caller the stack holds
  its arguments only, and a count beyond them reaches the slots \<open>below\<close>: those of the
  caller, oldest first, ending with the slot of the called function. A count beyond
  these as well leaves the stack.
\<close>

definition top_values :: "lua_value list \<Rightarrow> lua_value list \<Rightarrow> cint \<Rightarrow> error + lua_ret list" where
  "top_values below stack n =
     (if 0 \<le> sint n \<and> nat (sint n) \<le> length (below @ stack)
      then Inr (map Val (drop (length (below @ stack) - nat (sint n)) (below @ stack)))
      else Inl MemFault)"

definition pool_addthread :: "lua_value list \<Rightarrow> st \<Rightarrow> lua_value list \<Rightarrow> cfun_result" where
  "pool_addthread below s args =
     (case pool_addthread_body s args of
        (s', Inl e) \<Rightarrow> (s', Inl e)
      | (s', Inr n) \<Rightarrow> (s', top_values below args n))"

definition pool_size :: "st \<Rightarrow> lua_value list \<Rightarrow> cfun_result" where
  "pool_size s args =
     (case clp_topool (fst s) args 1 of
        Inl e \<Rightarrow> (s, Inl e)
      | Inr p \<Rightarrow>
          (case CHANNEL_LOCK p (snd s) of
             Inl e \<Rightarrow> (s, Inl e)
           | Inr w1 \<Rightarrow>
               (case pools w1 p of
                  None \<Rightarrow> (s, Inl MemFault)
                | Some pl \<Rightarrow>
                    (case CHANNEL_UNLOCK p w1 of
                       Inl e \<Rightarrow> (s, Inl e)
                     | Inr w2 \<Rightarrow> ((fst s, w2), Inr [Val (LNumber (sint (size_pool pl)))])))))"

definition pool_killthread :: "st \<Rightarrow> lua_value list \<Rightarrow> cfun_result" where
  "pool_killthread s args =
     (case clp_topool (fst s) args 1 of
        Inl e \<Rightarrow> (s, Inl e)
      | Inr p \<Rightarrow>
          (case pools (snd s) p of
             None \<Rightarrow> (s, Inl MemFault)
           | Some pl \<Rightarrow>
               ((fst s, (snd s)\<lparr>pools := (pools (snd s))(p \<mapsto>
                    pl\<lparr>ready := snd (clp_lfqueue_push (ready pl) 0)\<rparr>)\<rparr>), Inr [])))"

text \<open>
  \<^verbatim>\<open>pool_new\<close>. It calls \<^verbatim>\<open>pool_addthread\<close> through \<^verbatim>\<open>lua_call (L, 2, 0)\<close>, which
  drops whatever the callee returns.
\<close>

definition pool_new :: "st \<Rightarrow> lua_value list \<Rightarrow> cfun_result" where
  "pool_new s args =
     (let n = lua_tointeger args 1 in
      if sint n < 0 then (s, Inl (LuaError ''Initial pool size must be greater than zero''))
      else
        (let (p, w1) = malloc (snd s);
             w2 = w1\<lparr>pools := (pools w1)(p \<mapsto>
                    \<lparr>size_pool = 0, lock_pool = 0,
                     ready = clp_lfqueue_setcapacity clp_lfqueue_new (- 1)\<rparr>)\<rparr>;
             (u, L1) = clp_buildpool (fst s) p
         in case pool_addthread_body (L1, w2) [LUserdata u, LNumber (sint n)] of
              (s', Inl e) \<Rightarrow> (s', Inl e)
            | (s', Inr k) \<Rightarrow> (s', Inr [Val (LUserdata u)])))"

text \<open>
  Modelled from the spec: what a worker of the pool does with the head of the ready
  queue (the dispatch loop is in the scheduler, not among the two files). It waits on an
  empty queue; on the tombstone (the null pointer) it takes one off the pool's size and
  exits; any other item is an instance to run.
\<close>

datatype worker_action = Wait | Exit | Run addr

definition worker_dequeue :: "pool_s \<Rightarrow> worker_action \<times> pool_s" where
  "worker_dequeue pl =
     (case items (ready pl) of
        [] \<Rightarrow> (Wait, pl)
      | x # xs \<Rightarrow>
          (let pl1 = pl\<lparr>ready := (ready pl)\<lparr>items := xs\<rparr>\<rparr> in
           if x = 0 then (Exit, pl1\<lparr>size_pool := size_pool pl1 - 1\<rparr>) else (Run x, pl1)))"

section \<open>Auxiliary notions\<close>


text \<open>The task struct behind the handle that a call returned, if it returned one.\<close>

definition returned_task :: "st \<Rightarrow> lua_ret list \<Rightarrow> clp_Task option" where
  "returned_task s r =
     (case r of
        [Val (LUserdata u)] \<Rightarrow>
          (case ud_heap (fst s) u of
             None \<Rightarrow> None
           | Some b \<Rightarrow>
               if ud_mt b = Some CLP_TASK_METATABLE then tasks (snd s) (ud_ptr b) else None)
      | _ \<Rightarrow> None)"

text \<open>
  The handle that the cache of an interpreter holds for the address \<open>p\<close>, if it holds
  one, still points to \<open>p\<close>: it has not been passed to \<^verbatim>\<open>destroy\<close>.
\<close>

definition cached_live :: "lua_State \<Rightarrow> addr \<Rightarrow> bool" where
  "cached_live L p =
     (case task_cache L of
        None \<Rightarrow> True
      | Some c \<Rightarrow>
          (case c p of
             None \<Rightarrow> True
           | Some u \<Rightarrow> ud_heap L u = Some \<lparr>ud_ptr = p, ud_mt = Some CLP_TASK_METATABLE\<rparr>))"

section \<open>Example states\<close>

text \<open>
  A pool at address 2 (the default pool, with one worker), a task at address 1 made by
  \<^verbatim>\<open>new\<close> without arguments (its channel is at address 3), and an interpreter that
  holds a handle for each: userdata 0 for the task, userdata 1 for the pool.
  \<open>ex_world_env\<close> is the same with an environment stored in the task.
\<close>

definition ex_task :: clp_Task where
  "ex_task = \<lparr>intances_mutex = False, instances = 0, env = 0, env_len = 0,
     input = 3, pool = 2, parent = 0\<rparr>"

definition ex_pool :: pool_s where
  "ex_pool = \<lparr>size_pool = 1, lock_pool = 0, ready = \<lparr>items = [], capacity = - 1\<rparr>\<rparr>"

definition ex_world :: world where
  "ex_world = \<lparr>tasks = [1 \<mapsto> ex_task], bufs = Map.empty, pools = [2 \<mapsto> ex_pool],
     channels = [3 \<mapsto> []], insts = Map.empty, lstates = Map.empty, threads = [2],
     next_addr = 4, clp_defaultpool = 2\<rparr>"

definition ex_L :: lua_State where
  "ex_L = \<lparr>ud_heap = [0 \<mapsto> \<lparr>ud_ptr = 1, ud_mt = Some CLP_TASK_METATABLE\<rparr>,
                       1 \<mapsto> \<lparr>ud_ptr = 2, ud_mt = Some CLP_POOL_METATABLE\<rparr>],
     next_ud = 2, task_cache = None, tab_heap = Map.empty, next_tab = 0,
     reg_instance = None, reg_handler = LNil, reg_env = LNil, reg_errfn = LNil\<rparr>"

definition ex_world_env :: world where
  "ex_world_env = ex_world\<lparr>tasks := [1 \<mapsto> ex_task\<lparr>env := 4, env_len := 1\<rparr>],
     bufs := [4 \<mapsto> ''F''], next_addr := 5\<rparr>"

text \<open>Where the blocks of the userdata lie in the examples.\<close>

definition ex_blk :: "nat \<Rightarrow> addr" where
  "ex_blk u = 100 + u"

text \<open>
  A marshaller for the examples. It knows two environments: the function 1 alone, and
  the function 1 with the error function 2.
\<close>

definition ex_enc :: encoder where
  "ex_enc tab =
     (if tab = EnvTab (LFunction (UserFn 1)) LNil then Inr ''F''
      else if tab = EnvTab (LFunction (UserFn 1)) (LFunction (UserFn 2)) then Inr ''FE''
      else Inl (LuaError ''cannot marshal''))"


text \<open>The state after \<^verbatim>\<open>spawn(1)\<close> on the task of \<open>ex_world_env\<close>.\<close>

definition ex_instance :: instance_s where
  "ex_instance = \<lparr>inst_L = 5, inst_task = 1, inst_state = I_CREATED, inst_chan = 0, inst_ev = 0\<rparr>"

definition ex_world_busy :: world where
  "ex_world_busy = \<lparr>tasks = [1 \<mapsto> ex_task\<lparr>env := 4, env_len := 1, instances := 1\<rparr>],
     bufs = [4 \<mapsto> ''F''],
     pools = [2 \<mapsto> ex_pool\<lparr>ready := \<lparr>items = [6], capacity = - 1\<rparr>\<rparr>],
     channels = [3 \<mapsto> []], insts = [6 \<mapsto> ex_instance],
     lstates = [5 \<mapsto> luaL_newstate], threads = [2],
     next_addr = 7, clp_defaultpool = 2\<rparr>"


text \<open>The state after \<^verbatim>\<open>new(f)\<close> in \<open>ex_world\<close>, with \<open>f\<close> the function 1.\<close>

definition ex_new_state :: st where
  "ex_new_state =
     (ex_L\<lparr>ud_heap := (ud_heap ex_L)(2 \<mapsto> \<lparr>ud_ptr = 4, ud_mt = Some CLP_TASK_METATABLE\<rparr>),
          next_ud := 3\<rparr>,
      ex_world\<lparr>tasks := (tasks ex_world)(4 \<mapsto>
          \<lparr>intances_mutex = False, instances = 1, env = 5, env_len = 1,
           input = 6, pool = 2, parent = 0\<rparr>),
        bufs := [5 \<mapsto> ''F''],
        pools := [2 \<mapsto> ex_pool\<lparr>ready := \<lparr>items = [8], capacity = - 1\<rparr>\<rparr>],
        channels := (channels ex_world)(6 \<mapsto> []),
        insts := [8 \<mapsto> \<lparr>inst_L = 7, inst_task = 4, inst_state = I_CREATED,
                           inst_chan = 0, inst_ev = 0\<rparr>],
        lstates := [7 \<mapsto> luaL_newstate],
        next_addr := 9\<rparr>)"

text \<open>
  The state after \<^verbatim>\<open>get\<close> on the address of the example task, which makes the
  handle 2 and caches it, and the state after \<^verbatim>\<open>destroy\<close> on that handle.
\<close>

definition ex_got :: st where
  "ex_got =
     (ex_L\<lparr>ud_heap := (ud_heap ex_L)(2 \<mapsto> \<lparr>ud_ptr = 1, ud_mt = Some CLP_TASK_METATABLE\<rparr>),
          next_ud := 3, task_cache := Some [1 \<mapsto> 2]\<rparr>,
      ex_world)"

definition ex_destroyed :: st where
  "ex_destroyed =
     ((fst ex_got)\<lparr>ud_heap := (ud_heap (fst ex_got))(2 \<mapsto>
          \<lparr>ud_ptr = 0, ud_mt = Some CLP_TASK_METATABLE\<rparr>)\<rparr>,
      ex_world\<lparr>tasks := [1 \<mapsto> ex_task\<lparr>input := 0\<rparr>]\<rparr>)"


section \<open>Facts about the model\<close>

subsection \<open>Numbers\<close>



lemma sint_of_int_signed:
  "- (2 ^ 31) \<le> k \<Longrightarrow> k < 2 ^ 31 \<Longrightarrow> sint (word_of_int k :: cint) = k"
  by (simp add: sint_sbintrunc' signed_take_bit_int_eq_self)



subsection \<open>Creating instances\<close>









lemma clp_newinstance_keeps:
  assumes "clp_newinstance s w = Inr (i, w')"
  shows "tasks w' = tasks w \<and> channels w' = channels w \<and> bufs w' = bufs w"
  using assms
  by (auto simp: clp_newinstance_def malloc_def clp_pushinstance_def Let_def
      split: sum.splits option.splits)

lemma new_instances_keeps:
  assumes "new_instances k s w = Inr w'"
  shows "tasks w' = tasks w \<and> channels w' = channels w \<and> bufs w' = bufs w"
  using assms
proof (induction k arbitrary: w)
  case 0
  then show ?case by simp
next
  case (Suc k)
  then obtain i w1 where a: "clp_newinstance s w = Inr (i, w1)" and b: "new_instances k s w1 = Inr w'"
    by (auto split: sum.splits)
  from clp_newinstance_keeps [OF a] Suc.IH [OF b] show ?case by simp
qed

lemma task_instantiate_keeps:
  assumes "task_instantiate s args = (s', Inr r)"
  shows "fst s' = fst s \<and> channels (snd s') = channels (snd s) \<and> bufs (snd s') = bufs (snd s)
    \<and> (\<forall>q t. tasks (snd s) q = Some t \<longrightarrow>
          (\<exists>t'. tasks (snd s') q = Some t' \<and> input t' = input t \<and> env t' = env t
             \<and> env_len t' = env_len t \<and> pool t' = pool t))"
proof -
  have body: "tasks w2 = tasks w1 \<and> channels w2 = channels w1 \<and> bufs w2 = bufs w1"
    if "new_instances k p w1 = Inr w2" for k p w1 w2
    using new_instances_keeps [OF that] .
  show ?thesis
    using assms
    by (auto simp: task_instantiate_def Let_def MUTEX_LOCK_def MUTEX_UNLOCK_def
        instantiate_locked_def add_instances_def
        split: sum.splits option.splits if_splits dest!: body)
qed

subsection \<open>Creating a task\<close>

lemma newtask_alloc_ok:
  assumes "newtask_alloc enc (L, w) args = (s1, Inr (u, p, idle))"
  shows "u = next_ud L \<and> p = next_addr w
    \<and> ud_heap (fst s1) u = Some \<lparr>ud_ptr = p, ud_mt = None\<rparr>
    \<and> (\<exists>t0. tasks (snd s1) p = Some t0 \<and> (args = [] \<longrightarrow> env t0 = 0))
    \<and> channels (snd s1) = channels w
    \<and> next_addr w < next_addr (snd s1)
    \<and> (args = [] \<longrightarrow> idle = 0)"
  using assms
  by (auto simp: newtask_alloc_def Let_def malloc_def lua_newuserdata_def
      split: sum.splits if_splits)

lemma newtask_alloc_noargs:
  "\<exists>s1. newtask_alloc enc (L, w) [] = (s1, Inr (next_ud L, next_addr w, 0))"
  by (simp add: newtask_alloc_def Let_def malloc_def lua_newuserdata_def)

lemma newtask_init_ok:
  assumes "newtask_init p w1 = Inr w2"
  shows "\<exists>t0 t. tasks w1 p = Some t0 \<and> tasks w2 p = Some t \<and> input t = next_addr w1
     \<and> env t = env t0 \<and> channels w2 = (channels w1)(next_addr w1 \<mapsto> [])"
  using assms
  by (auto simp: newtask_init_def clp_channelnew_def malloc_def Let_def split: option.splits)

lemma newtask_init_total:
  assumes "tasks w1 p = Some t0"
  shows "\<exists>w2. newtask_init p w1 = Inr w2"
  using assms
  by (auto simp: newtask_init_def clp_channelnew_def malloc_def Let_def split: option.splits)

lemma newtask_parent_ok:
  assumes "newtask_parent L p w = Inr w4"
  shows "\<exists>t t'. tasks w p = Some t \<and> tasks w4 p = Some t' \<and> input t' = input t
     \<and> env t' = env t \<and> channels w4 = channels w"
  using assms
  by (auto simp: newtask_parent_def split: option.splits)

lemma newtask_parent_total:
  assumes "tasks w p = Some t" "\<forall>i. reg_instance L = Some i \<longrightarrow> insts w i \<noteq> None"
  shows "\<exists>w4. newtask_parent L p w = Inr w4"
  using assms
  by (auto simp: newtask_parent_def split: option.splits)

lemma setmetatable_ok:
  assumes "ud_heap L u = Some \<lparr>ud_ptr = p, ud_mt = None\<rparr>"
  shows "ud_heap (lua_setmetatable L u m) u = Some \<lparr>ud_ptr = p, ud_mt = Some m\<rparr>"
  using assms by (simp add: lua_setmetatable_def)

lemma newtask_success:
  assumes run: "clp_newtask enc (L, w) args = (s', Inr r)"
    and pos: "0 < next_addr w" and fresh: "\<forall>a\<ge>next_addr w. channels w a = None"
  shows "\<exists>t. returned_task s' r = Some t \<and> input t \<noteq> 0
     \<and> channels (snd s') (input t) = Some [] \<and> channels w (input t) = None
     \<and> (args = [] \<longrightarrow> env t = 0)"
proof -
  from run obtain s1 u p idle where a: "newtask_alloc enc (L, w) args = (s1, Inr (u, p, idle))"
    by (auto simp: clp_newtask_def split: prod.splits sum.splits)
  from newtask_alloc_ok [OF a] obtain t0 where a':
    "ud_heap (fst s1) u = Some \<lparr>ud_ptr = p, ud_mt = None\<rparr>"
    "tasks (snd s1) p = Some t0" "args = [] \<longrightarrow> env t0 = 0"
    "channels (snd s1) = channels w" "next_addr w < next_addr (snd s1)"
    by blast
  from run a obtain w2 where b: "newtask_init p (snd s1) = Inr w2"
    by (auto simp: clp_newtask_def split: prod.splits sum.splits)
  from newtask_init_ok [OF b] a'(2) obtain t2 where b':
    "tasks w2 p = Some t2" "input t2 = next_addr (snd s1)" "env t2 = env t0"
    "channels w2 = (channels (snd s1))(next_addr (snd s1) \<mapsto> [])"
    by auto
  let ?L2 = "lua_setmetatable (fst s1) u CLP_TASK_METATABLE"
  let ?r = "if 0 < sint idle
            then task_instantiate (?L2, w2) [LUserdata u, LNumber (sint idle)]
            else ((?L2, w2), Inr [])"
  from run a b obtain s3 x where c: "?r = (s3, Inr x)"
    by (auto simp: clp_newtask_def Let_def split: prod.splits sum.splits)
  have c': "fst s3 = ?L2 \<and> channels (snd s3) = channels w2
     \<and> (\<exists>t3. tasks (snd s3) p = Some t3 \<and> input t3 = input t2 \<and> env t3 = env t2)"
  proof (cases "0 < sint idle")
    case True
    with c have "task_instantiate (?L2, w2) [LUserdata u, LNumber (sint idle)] = (s3, Inr x)"
      by simp
    from task_instantiate_keeps [OF this] b'(1) show ?thesis by auto
  next
    case False
    with c b'(1) show ?thesis by auto
  qed
  then obtain t3 where t3: "tasks (snd s3) p = Some t3" "input t3 = input t2" "env t3 = env t2"
    by blast
  from run a b c obtain w4 where d: "newtask_parent (fst s3) p (snd s3) = Inr w4"
    and res: "s' = (fst s3, w4)" "r = [Val (LUserdata u)]"
    by (auto simp: clp_newtask_def Let_def split: prod.splits sum.splits if_splits)
  from newtask_parent_ok [OF d] t3 obtain t4 where d':
    "tasks w4 p = Some t4" "input t4 = input t3" "env t4 = env t3" "channels w4 = channels (snd s3)"
    by auto
  have "returned_task s' r = Some t4"
    using res c' d'(1) setmetatable_ok [OF a'(1), of CLP_TASK_METATABLE]
    by (simp add: returned_task_def)
  moreover have "input t4 = next_addr (snd s1)"
    using d'(2) t3(2) b'(2) by simp
  moreover have "channels (snd s') (next_addr (snd s1)) = Some []"
    using res d'(4) c' b'(4) by simp
  moreover have "channels w (next_addr (snd s1)) = None"
    using fresh a'(5) by simp
  moreover have "next_addr (snd s1) \<noteq> 0"
    using a'(5) by simp
  moreover have "args = [] \<longrightarrow> env t4 = 0"
    using d'(3) t3(3) b'(3) a'(3) by simp
  ultimately show ?thesis by auto
qed

lemma newtask_noargs_total:
  assumes "\<forall>i. reg_instance L = Some i \<longrightarrow> insts w i \<noteq> None"
  shows "\<exists>s' r. clp_newtask enc (L, w) [] = (s', Inr r)"
proof -
  obtain s1 where a: "newtask_alloc enc (L, w) [] = (s1, Inr (next_ud L, next_addr w, 0))"
    using newtask_alloc_noargs by blast
  have s1: "tasks (snd s1) (next_addr w) \<noteq> None" "insts (snd s1) = insts w"
      "reg_instance (fst s1) = reg_instance L"
    using a by (auto simp: newtask_alloc_def Let_def malloc_def lua_newuserdata_def)
  then obtain t0 where t0: "tasks (snd s1) (next_addr w) = Some t0" by auto
  from newtask_init_total [OF t0] obtain w2 where b: "newtask_init (next_addr w) (snd s1) = Inr w2"
    by blast
  have w2: "tasks w2 (next_addr w) \<noteq> None" "insts w2 = insts (snd s1)"
    using b by (auto simp: newtask_init_def clp_channelnew_def malloc_def Let_def
        split: option.splits)
  then obtain t2 where t2: "tasks w2 (next_addr w) = Some t2" by auto
  let ?L2 = "lua_setmetatable (fst s1) (next_ud L) CLP_TASK_METATABLE"
  have "reg_instance ?L2 = reg_instance L"
    using s1(3) by (simp add: lua_setmetatable_def split: option.splits)
  with assms w2(2) s1(2) have "\<forall>i. reg_instance ?L2 = Some i \<longrightarrow> insts w2 i \<noteq> None"
    by simp
  from newtask_parent_total [OF t2 this] obtain w4 where
    d: "newtask_parent ?L2 (next_addr w) w2 = Inr w4" by blast
  show ?thesis using a b d by (simp add: clp_newtask_def)
qed

subsection \<open>Handles\<close>

lemma buildtask_result:
  assumes "cached_live L p"
  shows "\<exists>L' h'. clp_buildtask L p = (L', LUserdata h')
     \<and> ud_heap L' h' = Some \<lparr>ud_ptr = p, ud_mt = Some CLP_TASK_METATABLE\<rparr>
     \<and> (\<forall>h. h \<noteq> h' \<longrightarrow> ud_heap L' h = ud_heap L h)
     \<and> (\<exists>c. task_cache L' = Some c \<and> c p = Some h')
     \<and> tab_heap L' = tab_heap L \<and> next_tab L' = next_tab L
     \<and> reg_instance L' = reg_instance L \<and> reg_env L' = reg_env L
     \<and> reg_handler L' = reg_handler L \<and> reg_errfn L' = reg_errfn L"
  using assms
  by (auto simp: clp_buildtask_def task_getcached_def task_putcache_def cache_isuserdata_def
      lua_newuserdata_def lua_setmetatable_def cached_live_def Let_def
      split: option.splits)

lemma task_eq_same:
  assumes "ud_heap L a = Some \<lparr>ud_ptr = p, ud_mt = Some CLP_TASK_METATABLE\<rparr>"
    and "ud_heap L b = Some \<lparr>ud_ptr = p, ud_mt = Some CLP_TASK_METATABLE\<rparr>"
  shows "task_eq (L, w) [LUserdata a, LUserdata b] = ((L, w), Inr [Val (LBoolean True)])"
    and "lua_equal (L, w) (LUserdata a) (LUserdata b)"
  using assms
  by (simp_all add: lua_equal_def task_eq_def clp_totask_def luaL_checkudata_def arg_def)

subsection \<open>The driver and the pools\<close>



lemma new_threads_eq: "new_threads k p w = w\<lparr>threads := threads w @ replicate k p\<rparr>"
proof (induction k arbitrary: w)
  case 0
  then show ?case by simp
next
  case (Suc k)
  then show ?case by (simp add: clp_newthread_def replicate_append_same)
qed

lemma pool_size_of_new:
  assumes "0 \<le> k" "k < 2 ^ 31"
  shows "pool_size
     (L\<lparr>ud_heap := (ud_heap L)(next_ud L \<mapsto>
               \<lparr>ud_ptr = next_addr w, ud_mt = Some CLP_POOL_METATABLE\<rparr>),
            next_ud := Suc (next_ud L)\<rparr>,
      w\<lparr>next_addr := Suc (next_addr w),
            pools := (pools w)(next_addr w \<mapsto>
               \<lparr>size_pool = word_of_int k, lock_pool = 0,
                ready = \<lparr>items = [], capacity = - 1\<rparr>\<rparr>),
            threads := threads w @ replicate (nat k) (next_addr w)\<rparr>)
     [LUserdata (next_ud L)] =
    ((L\<lparr>ud_heap := (ud_heap L)(next_ud L \<mapsto>
               \<lparr>ud_ptr = next_addr w, ud_mt = Some CLP_POOL_METATABLE\<rparr>),
            next_ud := Suc (next_ud L)\<rparr>,
      w\<lparr>next_addr := Suc (next_addr w),
            pools := (pools w)(next_addr w \<mapsto>
               \<lparr>size_pool = word_of_int k, lock_pool = 0,
                ready = \<lparr>items = [], capacity = - 1\<rparr>\<rparr>),
            threads := threads w @ replicate (nat k) (next_addr w)\<rparr>),
     Inr [Val (LNumber k)])"
  using assms sint_of_int_signed [of k]
  by (simp add: pool_size_def clp_topool_def luaL_checkudata_def arg_def
      CHANNEL_LOCK_def CHANNEL_UNLOCK_def)

subsection \<open>The arguments of wrap\<close>

lemma wrap_args_irrelevant:
  "task_wrap enc s [a, b, c, x] = task_wrap enc s [a, b, c, y]"
proof -
  have e: "lua_type_at [a, b, c, x] 2 = lua_type_at [a, b, c, y] 2"
    "lua_type_at [a, b, c, x] 3 = lua_type_at [a, b, c, y] 3"
    "arg_or_nil [a, b, c, x] 1 = arg_or_nil [a, b, c, y] 1"
    "arg_or_nil [a, b, c, x] 2 = arg_or_nil [a, b, c, y] 2"
    "arg_or_nil [a, b, c, x] 3 = arg_or_nil [a, b, c, y] 3"
    "return_self [a, b, c, x] = return_self [a, b, c, y]"
    "clp_totask (fst s) [a, b, c, x] 1 = clp_totask (fst s) [a, b, c, y] 1"
    "length [a, b, c, x] = length [a, b, c, y]"
    by (simp_all add: lua_type_at_def arg_or_nil_def return_self_def clp_totask_def
        luaL_checkudata_def arg_def)
  show ?thesis unfolding task_wrap_def e ..
qed

lemma wrap_third_number_irrelevant:
  "task_wrap enc s [a, b, LNumber j] = task_wrap enc s [a, b, LNumber k]"
proof -
  have e: "lua_type_at [a, b, LNumber j] 2 = lua_type_at [a, b, LNumber k] 2"
    "lua_type_at [a, b, LNumber j] 3 = LUA_TNUMBER"
    "lua_type_at [a, b, LNumber k] 3 = LUA_TNUMBER"
    "arg_or_nil [a, b, LNumber j] 1 = arg_or_nil [a, b, LNumber k] 1"
    "arg_or_nil [a, b, LNumber j] 2 = arg_or_nil [a, b, LNumber k] 2"
    "return_self [a, b, LNumber j] = return_self [a, b, LNumber k]"
    "clp_totask (fst s) [a, b, LNumber j] 1 = clp_totask (fst s) [a, b, LNumber k] 1"
    "length [a, b, LNumber j] = length [a, b, LNumber k]"
    by (simp_all add: lua_type_at_def arg_or_nil_def return_self_def clp_totask_def
        luaL_checkudata_def arg_def)
  have n: "(LUA_TNUMBER = LUA_TFUNCTION \<and> P) = False" for P by simp
  show ?thesis unfolding task_wrap_def e n if_False ..
qed

subsection \<open>The example states are reached by the code\<close>

lemma ex_world_busy_reached:
  "task_instantiate (ex_L, ex_world_env) [LUserdata 0, LNumber 1] =
     ((ex_L, ex_world_busy), Inr [Val (LUserdata 0)])"
  by (simp add: task_instantiate_def clp_totask_def luaL_checkudata_def arg_def
      lua_tointeger_def return_self_def MUTEX_LOCK_def MUTEX_UNLOCK_def
      instantiate_locked_def add_instances_def clp_newinstance_def malloc_def
      clp_pushinstance_def clp_lfqueue_push_def
      ex_L_def ex_world_env_def ex_world_def ex_world_busy_def ex_task_def ex_pool_def
      ex_instance_def Let_def)

lemma ex_new_state_reached:
  "clp_newtask ex_enc (ex_L, ex_world) [LFunction (UserFn 1)] =
     (ex_new_state, Inr [Val (LUserdata 2)])"
  by (simp add: clp_newtask_def newtask_alloc_def newtask_idle_def newtask_init_def
      newtask_parent_def clp_channelnew_def lua_newuserdata_def lua_setmetatable_def
      lua_type_at_def arg_or_nil_def ex_enc_def luaL_optint_def
      task_instantiate_def clp_totask_def luaL_checkudata_def arg_def
      lua_tointeger_def return_self_def MUTEX_LOCK_def MUTEX_UNLOCK_def
      instantiate_locked_def add_instances_def clp_newinstance_def malloc_def
      clp_pushinstance_def clp_lfqueue_push_def
      ex_L_def ex_world_def ex_task_def ex_pool_def ex_new_state_def Let_def)

lemma ex_got_reached:
  "clp_gettask ex_blk (ex_L, ex_world) [LLightUserdata 1] = (ex_got, Inr [Val (LUserdata 2)])"
  by (simp add: clp_gettask_def lua_touserdata_def arg_def clp_buildtask_def
      task_getcached_def task_putcache_def cache_isuserdata_def lua_newuserdata_def
      lua_setmetatable_def ex_got_def ex_L_def Let_def)

lemma ex_destroyed_reached:
  "clp_destroytask ex_got [LUserdata 2] = (ex_destroyed, Inr [])"
  by (simp add: clp_destroytask_def luaL_checkudata_def arg_def Let_def
      ex_got_def ex_destroyed_def ex_L_def ex_world_def ex_task_def)


section \<open>The claims\<close>

subsection \<open>C1: remove and the sign of the counter\<close>




subsection \<open>C2: wrap and its count\<close>

text \<open>
  C2 says that \<^verbatim>\<open>wrap(env_fn, err_fn, n)\<close> makes \<open>n\<close> instances. \<^verbatim>\<open>task_wrap\<close> never
  reads a count: its result is the same whatever stands in the place of \<open>n\<close>, as fourth
  argument or as third, and it always calls \<^verbatim>\<open>task_instantiate\<close> with 1. On the example
  task \<^verbatim>\<open>wrap(f, e, 3)\<close> stores the environment, returns the handle and leaves the
  counter at 1 with the single instance 6.
\<close>

theorem wrap_ignores_count:
  "task_wrap enc s [a, b, c, x] = task_wrap enc s [a, b, c, y]
   \<and> task_wrap enc s [a, b, LNumber j] = task_wrap enc s [a, b, LNumber k]
   \<and> task_wrap ex_enc (ex_L, ex_world)
      [LUserdata 0, LFunction (UserFn 1), LFunction (UserFn 2), LNumber 3] =
     ((ex_L,
       \<lparr>tasks = [1 \<mapsto> ex_task\<lparr>env := 4, env_len := 2, instances := 1\<rparr>],
        bufs = [4 \<mapsto> ''FE'' @ [CHR 0x00]],
        pools = [2 \<mapsto> ex_pool\<lparr>ready := \<lparr>items = [6], capacity = - 1\<rparr>\<rparr>],
        channels = [3 \<mapsto> []], insts = [6 \<mapsto> ex_instance],
        lstates = [5 \<mapsto> luaL_newstate], threads = [2],
        next_addr = 7, clp_defaultpool = 2\<rparr>),
      Inr [Val (LUserdata 0)])"
proof -
  have one: "task_wrap enc s [a, b, c, x] = task_wrap enc s [a, b, c, y]"
    by (rule wrap_args_irrelevant)
  have two: "task_wrap enc s [a, b, LNumber j] = task_wrap enc s [a, b, LNumber k]"
    by (rule wrap_third_number_irrelevant)
  have run: "task_wrap ex_enc (ex_L, ex_world)
      [LUserdata 0, LFunction (UserFn 1), LFunction (UserFn 2), LNumber 3] =
     ((ex_L,
       \<lparr>tasks = [1 \<mapsto> ex_task\<lparr>env := 4, env_len := 2, instances := 1\<rparr>],
        bufs = [4 \<mapsto> ''FE'' @ [CHR 0x00]],
        pools = [2 \<mapsto> ex_pool\<lparr>ready := \<lparr>items = [6], capacity = - 1\<rparr>\<rparr>],
        channels = [3 \<mapsto> []], insts = [6 \<mapsto> ex_instance],
        lstates = [5 \<mapsto> luaL_newstate], threads = [2],
        next_addr = 7, clp_defaultpool = 2\<rparr>),
      Inr [Val (LUserdata 0)])"
    by (simp add: task_wrap_def set_env_def lua_type_at_def arg_or_nil_def ex_enc_def
        task_instantiate_def clp_totask_def luaL_checkudata_def arg_def
        lua_tointeger_def return_self_def MUTEX_LOCK_def MUTEX_UNLOCK_def
        instantiate_locked_def add_instances_def clp_newinstance_def malloc_def
        clp_pushinstance_def clp_lfqueue_push_def
        ex_L_def ex_world_def ex_task_def ex_pool_def
        ex_instance_def Let_def numeral_2_eq_2)
  from one two run show ?thesis by blast
qed

subsection \<open>C3: the input channel of a new task\<close>

text \<open>
  C3: whenever \<^verbatim>\<open>new\<close> returns, with whatever arguments, it returns a task handle whose
  struct has an input channel that is not null, is allocated with an empty queue, and
  was not allocated before the call. Called without arguments, \<^verbatim>\<open>new\<close> does return
  (given that the instance the interpreter names as its own, if any, exists), and the
  task it returns has no environment and such a channel. The allocation pointer is
  taken to be beyond null and the channels in use.
\<close>

theorem newtask_allocates_input:
  assumes "0 < next_addr w" and "\<forall>a\<ge>next_addr w. channels w a = None"
  shows "(clp_newtask enc (L, w) args = (s', Inr r) \<longrightarrow>
           (\<exists>t. returned_task s' r = Some t \<and> input t \<noteq> 0
              \<and> channels (snd s') (input t) = Some [] \<and> channels w (input t) = None))
    \<and> ((\<forall>i. reg_instance L = Some i \<longrightarrow> insts w i \<noteq> None) \<longrightarrow>
           (\<exists>s0 r0 t. clp_newtask enc (L, w) [] = (s0, Inr r0)
              \<and> returned_task s0 r0 = Some t \<and> env t = 0 \<and> input t \<noteq> 0
              \<and> channels (snd s0) (input t) = Some [] \<and> channels w (input t) = None))"
proof (intro conjI impI)
  assume "clp_newtask enc (L, w) args = (s', Inr r)"
  from newtask_success [OF this assms]
  show "\<exists>t. returned_task s' r = Some t \<and> input t \<noteq> 0
              \<and> channels (snd s') (input t) = Some [] \<and> channels w (input t) = None"
    by blast
next
  assume "\<forall>i. reg_instance L = Some i \<longrightarrow> insts w i \<noteq> None"
  from newtask_noargs_total [OF this, of enc] obtain s0 r0 where
    run: "clp_newtask enc (L, w) [] = (s0, Inr r0)" by blast
  from newtask_success [OF run assms] run
  show "\<exists>s0 r0 t. clp_newtask enc (L, w) [] = (s0, Inr r0)
              \<and> returned_task s0 r0 = Some t \<and> env t = 0 \<and> input t \<noteq> 0
              \<and> channels (snd s0) (input t) = Some [] \<and> channels w (input t) = None"
    by blast
qed

text \<open>C3 on the example state: \<^verbatim>\<open>new(f)\<close> and \<^verbatim>\<open>new()\<close>.\<close>

theorem newtask_allocates_input_witness:
  "clp_newtask ex_enc (ex_L, ex_world) [LFunction (UserFn 1)] =
     (ex_new_state, Inr [Val (LUserdata 2)])
   \<and> (\<exists>t. returned_task ex_new_state [Val (LUserdata 2)] = Some t \<and> input t \<noteq> 0
          \<and> channels (snd ex_new_state) (input t) = Some []
          \<and> channels ex_world (input t) = None)
   \<and> (\<exists>s0 r0 t. clp_newtask ex_enc (ex_L, ex_world) [] = (s0, Inr r0)
          \<and> returned_task s0 r0 = Some t \<and> env t = 0 \<and> input t \<noteq> 0
          \<and> channels (snd s0) (input t) = Some [] \<and> channels ex_world (input t) = None)"
proof -
  have pos: "0 < next_addr ex_world"
    by (simp add: ex_world_def)
  have fresh: "\<forall>a\<ge>next_addr ex_world. channels ex_world a = None"
    by (simp add: ex_world_def)
  have reg: "\<forall>i. reg_instance ex_L = Some i \<longrightarrow> insts ex_world i \<noteq> None"
    by (simp add: ex_L_def)
  note inst = newtask_allocates_input [OF pos fresh, of ex_enc ex_L "[LFunction (UserFn 1)]"
      ex_new_state "[Val (LUserdata 2)]"]
  from inst ex_new_state_reached reg show ?thesis by blast
qed

subsection \<open>C4: spawn\<close>



subsection \<open>C5: the state after the init routine\<close>



subsection \<open>C6: a new pool\<close>

text \<open>
  C6, as stated, speaks of every size. \<^verbatim>\<open>pool_new\<close> reads the size with
  \<^verbatim>\<open>lua_tointeger\<close> into a C \<^verbatim>\<open>int\<close> before it tests the sign, so a size outside the
  range of \<^verbatim>\<open>int\<close> is tested after the cast: \<open>-4294967295\<close> is negative, yet it is read
  as 1 and gives a pool with one worker and no error; \<open>2147483648\<close> is not negative, yet
  it is read as \<open>-2147483648\<close> and raises.
\<close>

theorem pool_new_range_counterexample:
  "pool_new (ex_L, ex_world) [LNumber (- 4294967295)] =
        ((ex_L\<lparr>ud_heap := (ud_heap ex_L)(2 \<mapsto> \<lparr>ud_ptr = 4, ud_mt = Some CLP_POOL_METATABLE\<rparr>),
            next_ud := 3\<rparr>,
          ex_world\<lparr>next_addr := 5,
            pools := (pools ex_world)(4 \<mapsto>
               \<lparr>size_pool = 1, lock_pool = 0, ready = \<lparr>items = [], capacity = - 1\<rparr>\<rparr>),
            threads := [2, 4]\<rparr>),
         Inr [Val (LUserdata 2)])
   \<and> pool_new (ex_L, ex_world) [LNumber 2147483648] =
        ((ex_L, ex_world), Inl (LuaError ''Initial pool size must be greater than zero''))"
  by (simp add: pool_new_def lua_tointeger_def arg_def malloc_def clp_buildpool_def
      lua_newuserdata_def lua_setmetatable_def clp_lfqueue_new_def
      clp_lfqueue_setcapacity_def pool_addthread_body_def clp_topool_def
      luaL_checkudata_def luaL_optint_def CHANNEL_LOCK_def CHANNEL_UNLOCK_def
      add_size_def new_threads_eq Let_def ex_L_def ex_world_def)

text \<open>
  C6, amended: for a size in the range of a C \<^verbatim>\<open>int\<close>, \<^verbatim>\<open>Pool.new(size)\<close> raises when
  the size is negative and leaves the state as it was. For \<open>0 \<le> size\<close> it returns a
  handle to a new pool whose size field is \<open>size\<close>, whose lock is free and whose ready
  queue is empty with capacity \<open>-1\<close>, and exactly \<open>size\<close> worker threads are started, all
  for that pool. \<^verbatim>\<open>Pool.new(0)\<close> gives a pool of size 0 and starts no thread. A queue
  of negative capacity takes every push.
\<close>

theorem pool_new_contract:
  "(- (2 ^ 31) \<le> k \<and> k < 0 \<longrightarrow>
      pool_new (L, w) [LNumber k] =
        ((L, w), Inl (LuaError ''Initial pool size must be greater than zero'')))
   \<and> (0 \<le> k \<and> k < 2 ^ 31 \<longrightarrow>
      pool_new (L, w) [LNumber k] =
        ((L\<lparr>ud_heap := (ud_heap L)(next_ud L \<mapsto>
               \<lparr>ud_ptr = next_addr w, ud_mt = Some CLP_POOL_METATABLE\<rparr>),
            next_ud := Suc (next_ud L)\<rparr>,
          w\<lparr>next_addr := Suc (next_addr w),
            pools := (pools w)(next_addr w \<mapsto>
               \<lparr>size_pool = word_of_int k, lock_pool = 0,
                ready = \<lparr>items = [], capacity = - 1\<rparr>\<rparr>),
            threads := threads w @ replicate (nat k) (next_addr w)\<rparr>),
         Inr [Val (LUserdata (next_ud L))])
      \<and> snd (pool_size (fst (pool_new (L, w) [LNumber k])) [LUserdata (next_ud L)]) =
          Inr [Val (LNumber k)])
   \<and> pool_new (L, w) [LNumber 0] =
        ((L\<lparr>ud_heap := (ud_heap L)(next_ud L \<mapsto>
               \<lparr>ud_ptr = next_addr w, ud_mt = Some CLP_POOL_METATABLE\<rparr>),
            next_ud := Suc (next_ud L)\<rparr>,
          w\<lparr>next_addr := Suc (next_addr w),
            pools := (pools w)(next_addr w \<mapsto>
               \<lparr>size_pool = 0, lock_pool = 0,
                ready = \<lparr>items = [], capacity = - 1\<rparr>\<rparr>)\<rparr>),
         Inr [Val (LUserdata (next_ud L))])
   \<and> (\<forall>q x. capacity q < 0 \<longrightarrow> clp_lfqueue_push q x = (True, q\<lparr>items := items q @ [x]\<rparr>))"
proof -
  have neg: "pool_new (L, w) [LNumber k] =
        ((L, w), Inl (LuaError ''Initial pool size must be greater than zero''))"
    if "- (2 ^ 31) \<le> k" "k < 0"
    using that sint_of_int_signed [of k]
    by (simp add: pool_new_def lua_tointeger_def arg_def)
  have pos: "pool_new (L, w) [LNumber j] =
        ((L\<lparr>ud_heap := (ud_heap L)(next_ud L \<mapsto>
               \<lparr>ud_ptr = next_addr w, ud_mt = Some CLP_POOL_METATABLE\<rparr>),
            next_ud := Suc (next_ud L)\<rparr>,
          w\<lparr>next_addr := Suc (next_addr w),
            pools := (pools w)(next_addr w \<mapsto>
               \<lparr>size_pool = word_of_int j, lock_pool = 0,
                ready = \<lparr>items = [], capacity = - 1\<rparr>\<rparr>),
            threads := threads w @ replicate (nat j) (next_addr w)\<rparr>),
         Inr [Val (LUserdata (next_ud L))])"
    if "0 \<le> j" "j < 2 ^ 31" for j
    using that sint_of_int_signed [of j]
    by (simp add: pool_new_def lua_tointeger_def arg_def malloc_def clp_buildpool_def
        lua_newuserdata_def lua_setmetatable_def clp_lfqueue_new_def
        clp_lfqueue_setcapacity_def pool_addthread_body_def clp_topool_def
        luaL_checkudata_def luaL_optint_def CHANNEL_LOCK_def CHANNEL_UNLOCK_def
        add_size_def new_threads_eq Let_def)
  have sz: "snd (pool_size (fst (pool_new (L, w) [LNumber k])) [LUserdata (next_ud L)]) =
          Inr [Val (LNumber k)]"
    if "0 \<le> k" "k < 2 ^ 31"
    using pos [OF that] pool_size_of_new [OF that, of L w] by simp
  have q: "\<forall>q x. capacity q < 0 \<longrightarrow> clp_lfqueue_push q x = (True, q\<lparr>items := items q @ [x]\<rparr>)"
    by (simp add: clp_lfqueue_push_def)
  show ?thesis using neg pos sz pos [of 0] q by simp
qed

text \<open>The amended C6 at sizes \<open>-1\<close> and 3 in the example state.\<close>

theorem pool_new_contract_witness:
  "pool_new (ex_L, ex_world) [LNumber (- 1)] =
        ((ex_L, ex_world), Inl (LuaError ''Initial pool size must be greater than zero''))
   \<and> pool_new (ex_L, ex_world) [LNumber 3] =
        ((ex_L\<lparr>ud_heap := (ud_heap ex_L)(2 \<mapsto> \<lparr>ud_ptr = 4, ud_mt = Some CLP_POOL_METATABLE\<rparr>),
            next_ud := 3\<rparr>,
          ex_world\<lparr>next_addr := 5,
            pools := (pools ex_world)(4 \<mapsto>
               \<lparr>size_pool = 3, lock_pool = 0, ready = \<lparr>items = [], capacity = - 1\<rparr>\<rparr>),
            threads := [2, 4, 4, 4]\<rparr>),
         Inr [Val (LUserdata 2)])
   \<and> snd (pool_size (fst (pool_new (ex_L, ex_world) [LNumber 3])) [LUserdata 2]) =
        Inr [Val (LNumber 3)]
   \<and> clp_lfqueue_push \<lparr>items = [], capacity = - 1\<rparr> 7 = (True, \<lparr>items = [7], capacity = - 1\<rparr>)"
proof -
  have n: "next_ud ex_L = 2" "next_addr ex_world = 4" "threads ex_world = [2]"
    by (simp_all add: ex_L_def ex_world_def)
  have r: "- (2 ^ 31) \<le> (- 1 :: int) \<and> (- 1 :: int) < 0"
    by simp
  have p: "(0 :: int) \<le> 3 \<and> (3 :: int) < 2 ^ 31"
    by simp
  from pool_new_contract [of "- 1" ex_L ex_world] r
  have A: "pool_new (ex_L, ex_world) [LNumber (- 1)] =
        ((ex_L, ex_world), Inl (LuaError ''Initial pool size must be greater than zero''))"
    by blast
  from pool_new_contract [of 3 ex_L ex_world] p
  have B: "pool_new (ex_L, ex_world) [LNumber 3] =
        ((ex_L\<lparr>ud_heap := (ud_heap ex_L)(next_ud ex_L \<mapsto>
               \<lparr>ud_ptr = next_addr ex_world, ud_mt = Some CLP_POOL_METATABLE\<rparr>),
            next_ud := Suc (next_ud ex_L)\<rparr>,
          ex_world\<lparr>next_addr := Suc (next_addr ex_world),
            pools := (pools ex_world)(next_addr ex_world \<mapsto>
               \<lparr>size_pool = word_of_int 3, lock_pool = 0,
                ready = \<lparr>items = [], capacity = - 1\<rparr>\<rparr>),
            threads := threads ex_world @ replicate (nat 3) (next_addr ex_world)\<rparr>),
         Inr [Val (LUserdata (next_ud ex_L))])"
    and C: "snd (pool_size (fst (pool_new (ex_L, ex_world) [LNumber 3]))
          [LUserdata (next_ud ex_L)]) = Inr [Val (LNumber 3)]"
    by blast+
  have Q: "clp_lfqueue_push \<lparr>items = [], capacity = - 1\<rparr> 7 =
      (True, \<lparr>items = [7], capacity = - 1\<rparr>)"
    by (simp add: clp_lfqueue_push_def)
  have B': "pool_new (ex_L, ex_world) [LNumber 3] =
        ((ex_L\<lparr>ud_heap := (ud_heap ex_L)(2 \<mapsto> \<lparr>ud_ptr = 4, ud_mt = Some CLP_POOL_METATABLE\<rparr>),
            next_ud := 3\<rparr>,
          ex_world\<lparr>next_addr := 5,
            pools := (pools ex_world)(4 \<mapsto>
               \<lparr>size_pool = 3, lock_pool = 0, ready = \<lparr>items = [], capacity = - 1\<rparr>\<rparr>),
            threads := [2, 4, 4, 4]\<rparr>),
         Inr [Val (LUserdata 2)])"
    unfolding B n by (simp add: numeral_3_eq_3)
  from A B' C Q n(1) show ?thesis by simp
qed

subsection \<open>C7: kill\<close>

text \<open>
  C7: on a pool whose ready queue is unbounded, as \<^verbatim>\<open>pool_new\<close> makes it, \<^verbatim>\<open>kill()\<close>
  returns nothing, appends one null pointer to the ready queue and leaves the interpreter
  and the rest of the heap, the size of the pool included, as they were. A worker that
  takes the null pointer from the head of the queue exits with the size one lower; a
  worker that does not exit leaves the size alone.
\<close>

theorem kill_pushes_one_tombstone:
  assumes "ud_heap L u = Some \<lparr>ud_ptr = p, ud_mt = Some CLP_POOL_METATABLE\<rparr>"
    and "pools w p = Some pl" and "capacity (ready pl) < 0"
  shows "pool_killthread (L, w) [LUserdata u] =
      ((L, w\<lparr>pools := (pools w)(p \<mapsto> pl\<lparr>ready := (ready pl)\<lparr>items := items (ready pl) @ [0]\<rparr>\<rparr>)\<rparr>),
       Inr [])
    \<and> worker_dequeue (pl\<lparr>ready := (ready pl)\<lparr>items := 0 # xs\<rparr>\<rparr>) =
        (Exit, pl\<lparr>ready := (ready pl)\<lparr>items := xs\<rparr>, size_pool := size_pool pl - 1\<rparr>)
    \<and> (fst (worker_dequeue pl') \<noteq> Exit \<longrightarrow> size_pool (snd (worker_dequeue pl')) = size_pool pl')"
  using assms
  by (auto simp: pool_killthread_def clp_topool_def luaL_checkudata_def arg_def
      clp_lfqueue_push_def worker_dequeue_def Let_def split: list.splits)

text \<open>C7 on the example pool, whose queue holds the instance 6.\<close>

theorem kill_pushes_one_tombstone_witness:
  "pool_killthread (ex_L, ex_world_busy) [LUserdata 1] =
      ((ex_L, ex_world_busy\<lparr>pools := [2 \<mapsto> ex_pool\<lparr>ready := \<lparr>items = [6, 0], capacity = - 1\<rparr>\<rparr>]\<rparr>),
       Inr [])
   \<and> worker_dequeue (ex_pool\<lparr>ready := \<lparr>items = [0, 6], capacity = - 1\<rparr>\<rparr>) =
        (Exit, ex_pool\<lparr>ready := \<lparr>items = [6], capacity = - 1\<rparr>, size_pool := 0\<rparr>)
   \<and> worker_dequeue (ex_pool\<lparr>ready := \<lparr>items = [6, 0], capacity = - 1\<rparr>\<rparr>) =
        (Run 6, ex_pool\<lparr>ready := \<lparr>items = [0], capacity = - 1\<rparr>\<rparr>)"
proof -
  have h: "ud_heap ex_L 1 = Some \<lparr>ud_ptr = 2, ud_mt = Some CLP_POOL_METATABLE\<rparr>"
    by (simp add: ex_L_def)
  have p: "pools ex_world_busy 2 = Some (ex_pool\<lparr>ready := \<lparr>items = [6], capacity = - 1\<rparr>\<rparr>)"
    by (simp add: ex_world_busy_def)
  have c: "capacity (ready (ex_pool\<lparr>ready := \<lparr>items = [6], capacity = - 1\<rparr>\<rparr>)) < 0"
    by simp
  have r: "worker_dequeue (ex_pool\<lparr>ready := \<lparr>items = [6, 0], capacity = - 1\<rparr>\<rparr>) =
        (Run 6, ex_pool\<lparr>ready := \<lparr>items = [0], capacity = - 1\<rparr>\<rparr>)"
    by (simp add: worker_dequeue_def)
  from kill_pushes_one_tombstone [OF h p c, of "[6]"] r show ?thesis
    by (simp add: ex_world_busy_def ex_pool_def)
qed

subsection \<open>C8: a handle rebuilt from its address\<close>

text \<open>
  C8, as stated, holds for every live handle. From the example state, \<^verbatim>\<open>get\<close> of the
  address 1 makes the handle 2 and caches it, and \<^verbatim>\<open>destroy\<close> of the handle 2 makes it
  point nowhere but leaves it in the cache. In the state reached, \<open>ex_destroyed\<close>, the
  handle 0 still points to the task at address 1 and \<^verbatim>\<open>__id\<close> gives that address, but
  \<^verbatim>\<open>get\<close> of it returns the handle 2, which does not compare equal to the handle 0.
\<close>

theorem get_after_destroy_counterexample:
  "clp_gettask ex_blk (ex_L, ex_world) [LLightUserdata 1] = (ex_got, Inr [Val (LUserdata 2)])
   \<and> clp_destroytask ex_got [LUserdata 2] = (ex_destroyed, Inr [])
   \<and> ud_heap (fst ex_destroyed) 0 = Some \<lparr>ud_ptr = 1, ud_mt = Some CLP_TASK_METATABLE\<rparr>
   \<and> task_ptr ex_destroyed [LUserdata 0] = (ex_destroyed, Inr [Val (LLightUserdata 1)])
   \<and> clp_gettask ex_blk ex_destroyed [LLightUserdata 1] = (ex_destroyed, Inr [Val (LUserdata 2)])
   \<and> \<not> lua_equal ex_destroyed (LUserdata 2) (LUserdata 0)
   \<and> task_eq ex_destroyed [LUserdata 2, LUserdata 0] = (ex_destroyed, Inr [Val (LBoolean False)])"
proof -
  have after: "ud_heap (fst ex_destroyed) 0 = Some \<lparr>ud_ptr = 1, ud_mt = Some CLP_TASK_METATABLE\<rparr>
     \<and> task_ptr ex_destroyed [LUserdata 0] = (ex_destroyed, Inr [Val (LLightUserdata 1)])
     \<and> clp_gettask ex_blk ex_destroyed [LLightUserdata 1] = (ex_destroyed, Inr [Val (LUserdata 2)])
     \<and> \<not> lua_equal ex_destroyed (LUserdata 2) (LUserdata 0)
     \<and> task_eq ex_destroyed [LUserdata 2, LUserdata 0] =
          (ex_destroyed, Inr [Val (LBoolean False)])"
    by (simp add: clp_gettask_def lua_touserdata_def arg_def clp_buildtask_def
        task_getcached_def task_ptr_def task_eq_def lua_equal_def clp_totask_def
        luaL_checkudata_def ex_destroyed_def ex_got_def ex_L_def Let_def)
  from ex_got_reached ex_destroyed_reached after show ?thesis by blast
qed

text \<open>
  C8, amended: let \<open>h\<close> be a handle that points to a task at \<open>p\<close>, and let the handle that
  the cache holds for \<open>p\<close>, if any, point to \<open>p\<close> as well. Then \<^verbatim>\<open>h.ptr\<close> is \<open>p\<close>, and
  \<^verbatim>\<open>get\<close> of it returns a handle that compares equal to \<open>h\<close> (by Lua's \<^verbatim>\<open>==\<close> and by
  \<^verbatim>\<open>task_eq\<close>) and is the one the cache holds for \<open>p\<close> afterwards. Any two handles that
  point to the same task compare equal.
\<close>

theorem get_of_ptr_equal_handle:
  assumes live: "ud_heap L h = Some \<lparr>ud_ptr = p, ud_mt = Some CLP_TASK_METATABLE\<rparr>"
    and nonnull: "p \<noteq> 0"
    and cache: "cached_live L p"
  shows "task_ptr (L, w) [LUserdata h] = ((L, w), Inr [Val (LLightUserdata p)])
    \<and> (\<exists>L' h'. clp_gettask blk (L, w) [LLightUserdata p] = ((L', w), Inr [Val (LUserdata h')])
          \<and> lua_equal (L', w) (LUserdata h') (LUserdata h)
          \<and> task_eq (L', w) [LUserdata h', LUserdata h] = ((L', w), Inr [Val (LBoolean True)])
          \<and> (\<exists>c. task_cache L' = Some c \<and> c p = Some h'))
    \<and> (\<forall>h2. ud_heap L h2 = Some \<lparr>ud_ptr = p, ud_mt = Some CLP_TASK_METATABLE\<rparr> \<longrightarrow>
          lua_equal (L, w) (LUserdata h) (LUserdata h2)
          \<and> task_eq (L, w) [LUserdata h, LUserdata h2] = ((L, w), Inr [Val (LBoolean True)]))"
proof -
  have ptr: "task_ptr (L, w) [LUserdata h] = ((L, w), Inr [Val (LLightUserdata p)])"
    using live by (simp add: task_ptr_def clp_totask_def luaL_checkudata_def arg_def)
  from buildtask_result [OF cache] obtain L' h' where b:
    "clp_buildtask L p = (L', LUserdata h')"
    "ud_heap L' h' = Some \<lparr>ud_ptr = p, ud_mt = Some CLP_TASK_METATABLE\<rparr>"
    "\<forall>x. x \<noteq> h' \<longrightarrow> ud_heap L' x = ud_heap L x"
    "\<exists>c. task_cache L' = Some c \<and> c p = Some h'"
    by blast
  have get: "clp_gettask blk (L, w) [LLightUserdata p] = ((L', w), Inr [Val (LUserdata h')])"
    using nonnull b(1) by (simp add: clp_gettask_def lua_touserdata_def arg_def)
  have h: "ud_heap L' h = Some \<lparr>ud_ptr = p, ud_mt = Some CLP_TASK_METATABLE\<rparr>"
    using live b(2,3) by (cases "h = h'") simp_all
  from task_eq_same [OF b(2) h, of w] get b(4) ptr task_eq_same [OF live, of _ w]
  show ?thesis by blast
qed

text \<open>The amended C8 in the state after one \<^verbatim>\<open>get\<close>, with the handles 0 and 2.\<close>

theorem get_of_ptr_equal_handle_witness:
  "task_ptr ex_got [LUserdata 0] = (ex_got, Inr [Val (LLightUserdata 1)])
   \<and> (\<exists>L' h'. clp_gettask ex_blk ex_got [LLightUserdata 1] = ((L', ex_world), Inr [Val (LUserdata h')])
          \<and> lua_equal (L', ex_world) (LUserdata h') (LUserdata 0))
   \<and> lua_equal ex_got (LUserdata 0) (LUserdata 2)"
proof -
  have live: "ud_heap (fst ex_got) 0 = Some \<lparr>ud_ptr = 1, ud_mt = Some CLP_TASK_METATABLE\<rparr>"
    by (simp add: ex_got_def ex_L_def)
  have two: "ud_heap (fst ex_got) 2 = Some \<lparr>ud_ptr = 1, ud_mt = Some CLP_TASK_METATABLE\<rparr>"
    by (simp add: ex_got_def ex_L_def)
  have nonnull: "(1::nat) \<noteq> 0" by simp
  have cache: "cached_live (fst ex_got) 1"
    by (simp add: cached_live_def ex_got_def ex_L_def)
  have st: "ex_got = (fst ex_got, ex_world)"
    by (simp add: ex_got_def)
  from get_of_ptr_equal_handle [OF live nonnull cache, of ex_world] two st
  show ?thesis by metis
qed

subsection \<open>C9: destroy and the counter\<close>

text \<open>
  C9, as stated, says that \<^verbatim>\<open>destroy\<close> releases nothing of a task whose counter is
  positive. \<^verbatim>\<open>clp_destroytask\<close> does not read the counter: after \<^verbatim>\<open>spawn(1)\<close> the
  example task has the counter 1, and \<^verbatim>\<open>destroy\<close> frees its environment buffer at
  address 4.
\<close>

theorem destroy_guard_counterexample:
  "task_instantiate (ex_L, ex_world_env) [LUserdata 0, LNumber 1] =
     ((ex_L, ex_world_busy), Inr [Val (LUserdata 0)])
   \<and> tasks ex_world_busy 1 = Some (ex_task\<lparr>env := 4, env_len := 1, instances := 1\<rparr>)
   \<and> sint (instances (ex_task\<lparr>env := 4, env_len := 1, instances := 1\<rparr>)) = 1
   \<and> bufs ex_world_busy 4 = Some ''F''
   \<and> snd (clp_destroytask (ex_L, ex_world_busy) [LUserdata 0]) = Inr []
   \<and> bufs (snd (fst (clp_destroytask (ex_L, ex_world_busy) [LUserdata 0]))) 4 = None"
proof -
  have after: "tasks ex_world_busy 1 = Some (ex_task\<lparr>env := 4, env_len := 1, instances := 1\<rparr>)
     \<and> sint (instances (ex_task\<lparr>env := 4, env_len := 1, instances := 1\<rparr>)) = 1
     \<and> bufs ex_world_busy 4 = Some ''F''
     \<and> snd (clp_destroytask (ex_L, ex_world_busy) [LUserdata 0]) = Inr []
     \<and> bufs (snd (fst (clp_destroytask (ex_L, ex_world_busy) [LUserdata 0]))) 4 = None"
    by (simp add: clp_destroytask_def luaL_checkudata_def arg_def Let_def
        ex_L_def ex_world_busy_def ex_task_def)
  from ex_world_busy_reached after show ?thesis by blast
qed

text \<open>
  C9, amended: whatever the counter, \<^verbatim>\<open>destroy\<close> on a handle that points to a task with
  an environment frees the environment buffer, sets the input of the task to null and
  makes the handle point nowhere. The struct itself stays allocated, with its counter
  and its other fields as they were.
\<close>

theorem destroy_frees_env_whatever_the_count:
  assumes "ud_heap L u = Some \<lparr>ud_ptr = p, ud_mt = Some CLP_TASK_METATABLE\<rparr>"
    and "p \<noteq> 0" and "tasks w p = Some t"
    and "env t \<noteq> 0" and "bufs w (env t) \<noteq> None"
  shows "clp_destroytask (L, w) [LUserdata u] =
      ((L\<lparr>ud_heap := (ud_heap L)(u \<mapsto> \<lparr>ud_ptr = 0, ud_mt = Some CLP_TASK_METATABLE\<rparr>)\<rparr>,
        w\<lparr>bufs := (bufs w)(env t := None), tasks := (tasks w)(p \<mapsto> t\<lparr>input := 0\<rparr>)\<rparr>),
       Inr [])"
  using assms
  by (auto simp: clp_destroytask_def luaL_checkudata_def arg_def Let_def)

text \<open>The amended C9 on the example task with one instance.\<close>

theorem destroy_frees_env_whatever_the_count_witness:
  "clp_destroytask (ex_L, ex_world_busy) [LUserdata 0] =
      ((ex_L\<lparr>ud_heap := (ud_heap ex_L)(0 \<mapsto> \<lparr>ud_ptr = 0, ud_mt = Some CLP_TASK_METATABLE\<rparr>)\<rparr>,
        ex_world_busy\<lparr>bufs := Map.empty,
          tasks := [1 \<mapsto> ex_task\<lparr>env := 4, env_len := 1, instances := 1, input := 0\<rparr>]\<rparr>),
       Inr [])"
proof -
  have h: "ud_heap ex_L 0 = Some \<lparr>ud_ptr = 1, ud_mt = Some CLP_TASK_METATABLE\<rparr>"
    by (simp add: ex_L_def)
  have p: "(1::nat) \<noteq> 0" by simp
  have t: "tasks ex_world_busy 1 = Some (ex_task\<lparr>env := 4, env_len := 1, instances := 1\<rparr>)"
    by (simp add: ex_world_busy_def)
  have e: "env (ex_task\<lparr>env := 4, env_len := 1, instances := 1\<rparr>) \<noteq> 0"
    by simp
  have b: "bufs ex_world_busy (env (ex_task\<lparr>env := 4, env_len := 1, instances := 1\<rparr>)) \<noteq> None"
    by (simp add: ex_world_busy_def)
  from destroy_frees_env_whatever_the_count [OF h p t e b] show ?thesis
    by (simp add: ex_world_busy_def)
qed

subsection \<open>C10: spawn(0) and remove(0)\<close>

text \<open>
  C10: \<^verbatim>\<open>remove(0)\<close>, and \<^verbatim>\<open>remove()\<close> whose count defaults to 0, return the handle and
  leave the interpreter and the heap as they were. So does \<^verbatim>\<open>spawn(0)\<close> on a task with
  pool and environment; without one of them it raises, the state again unchanged.
\<close>

theorem spawn_zero_remove_zero_noop:
  assumes "ud_heap L u = Some \<lparr>ud_ptr = p, ud_mt = Some CLP_TASK_METATABLE\<rparr>"
    and "tasks w p = Some t"
  shows "task_destroyinstances (L, w) [LUserdata u, LNumber 0] = ((L, w), Inr [Val (LUserdata u)])
    \<and> task_destroyinstances (L, w) [LUserdata u] = ((L, w), Inr [Val (LUserdata u)])
    \<and> task_instantiate (L, w) [LUserdata u, LNumber 0] =
        ((L, w),
         if pool t = 0 then Inl (LuaError ''Process must be associated to a pool'')
         else if env t = 0 then Inl (LuaError ''Process must have an environment'')
         else Inr [Val (LUserdata u)])"
  using assms
  by (simp add: task_destroyinstances_def task_instantiate_def clp_totask_def
      luaL_checkudata_def arg_def luaL_optint_def lua_tointeger_def return_self_def)

text \<open>C10 on the example task, with an environment and without.\<close>

theorem spawn_zero_remove_zero_noop_witness:
  "task_destroyinstances (ex_L, ex_world_env) [LUserdata 0, LNumber 0] =
      ((ex_L, ex_world_env), Inr [Val (LUserdata 0)])
   \<and> task_destroyinstances (ex_L, ex_world_env) [LUserdata 0] =
      ((ex_L, ex_world_env), Inr [Val (LUserdata 0)])
   \<and> task_instantiate (ex_L, ex_world_env) [LUserdata 0, LNumber 0] =
      ((ex_L, ex_world_env), Inr [Val (LUserdata 0)])
   \<and> task_instantiate (ex_L, ex_world) [LUserdata 0, LNumber 0] =
      ((ex_L, ex_world), Inl (LuaError ''Process must have an environment''))"
proof -
  have h: "ud_heap ex_L 0 = Some \<lparr>ud_ptr = 1, ud_mt = Some CLP_TASK_METATABLE\<rparr>"
    by (simp add: ex_L_def)
  have t1: "tasks ex_world_env 1 = Some (ex_task\<lparr>env := 4, env_len := 1\<rparr>)"
    by (simp add: ex_world_env_def)
  have t0: "tasks ex_world 1 = Some ex_task"
    by (simp add: ex_world_def)
  from spawn_zero_remove_zero_noop [OF h t1] spawn_zero_remove_zero_noop [OF h t0]
  show ?thesis by (simp add: ex_task_def)
qed

end
